theory Spec2Isabelle
  imports Main "HOL-Library.Sublist"
begin

section \<open>Python values and strings\<close>

text \<open>
  Strings are ASCII byte strings. A tool may hand back any Python object; the agent only
  looks at three things: whether the object is a dict, whether that dict has the key
  \<open>error\<close>, and the text that the builtin \<open>str()\<close> gives for an object. A dict therefore
  carries its entries together with its \<open>str()\<close> text, and every object that is neither a
  string nor a dict is represented by its \<open>str()\<close> text alone.
\<close>

datatype pyval =
    PyStr string
  | PyDict "(string \<times> pyval) list" string
  | PyOther string

fun py_str :: "pyval \<Rightarrow> string" where
  "py_str (PyStr s) = s"
| "py_str (PyDict kvs s) = s"
| "py_str (PyOther s) = s"

type_synonym args = "(string \<times> pyval) list"

text \<open>\<open>str.upper()\<close> on ASCII text: the letters a..z move to A..Z, all else stays.\<close>

definition upper_char :: "char \<Rightarrow> char" where
  "upper_char c =
     (let n = (of_char c :: nat) in if 97 \<le> n \<and> n \<le> 122 then char_of (n - 32) else c)"

definition upper :: "string \<Rightarrow> string" where
  "upper s = map upper_char s"

text \<open>\<open>sep.join(xs)\<close>.\<close>

fun join :: "string \<Rightarrow> string list \<Rightarrow> string" where
  "join sep [] = []"
| "join sep [x] = x"
| "join sep (x # y # ys) = x @ sep @ join sep (y # ys)"

text \<open>The decimal text of a non-negative integer, as an f-string prints the year.\<close>

fun str_nat :: "nat \<Rightarrow> string" where
  "str_nat n =
     (if n < 10 then [char_of (48 + n)]
      else str_nat (n div 10) @ [char_of (48 + n mod 10)])"

abbreviation NL :: string where
  "NL \<equiv> [CHR 0x0A]"

abbreviation QUOTE :: string where
  "QUOTE \<equiv> [CHR 0x27]"

section \<open>Messages\<close>

record tool_call =
  tc_name :: string
  tc_id :: string
  tc_args :: args

text \<open>
  \<open>ToolMessage tool_call_id name content\<close>; an \<open>AIMessage\<close> carries its tool calls.
\<close>

datatype message =
    SystemMessage string
  | HumanMessage string
  | AIMessage string "tool_call list"
  | ToolMessage string string string

fun content :: "message \<Rightarrow> string" where
  "content (SystemMessage c) = c"
| "content (HumanMessage c) = c"
| "content (AIMessage c calls) = c"
| "content (ToolMessage tid nm c) = c"

fun is_system :: "message \<Rightarrow> bool" where
  "is_system (SystemMessage c) = True"
| "is_system m = False"

fun tool_call_id :: "message \<Rightarrow> string option" where
  "tool_call_id (ToolMessage tid nm c) = Some tid"
| "tool_call_id m = None"

fun message_name :: "message \<Rightarrow> string option" where
  "message_name (ToolMessage tid nm c) = Some nm"
| "message_name m = None"

datatype exn = IndexError | AttributeError | ProviderError string

section \<open>External collaborators\<close>

text \<open>
  A tool either returns a Python value or raises; only \<open>str(e)\<close> of the exception is ever
  read. The three tools and the language-model provider do network calls, so their answers
  are not functions of their arguments alone: each is given, besides its input, the number
  of calls of its kind made so far by this agent.
\<close>

datatype tool_outcome = Returns pyval | Raises string

record tool =
  t_name :: string
  t_invoke :: "nat \<Rightarrow> args \<Rightarrow> tool_outcome"

record env =
  CURRENT_YEAR :: nat
  invoke_flights_finder :: "nat \<Rightarrow> args \<Rightarrow> tool_outcome"
  invoke_hotels_finder :: "nat \<Rightarrow> args \<Rightarrow> tool_outcome"
  invoke_weather_check :: "nat \<Rightarrow> args \<Rightarrow> tool_outcome"
  provider :: "nat \<Rightarrow> message list \<Rightarrow> string + (string \<times> tool_call list)"

definition TOOLS_SYSTEM_PROMPT :: "nat \<Rightarrow> string" where
  "TOOLS_SYSTEM_PROMPT year =
     ''You are a smart travel agency. Use the tools to look up information.'' @ NL @
     ''    You are allowed to make multiple calls (either together or in sequence).'' @ NL @
     ''    Only look up information when you are sure of what you want.'' @ NL @
     ''    The current year is '' @ str_nat year @ ''.'' @ NL @
     ''    If you need to look up some information before asking a follow up question, you are allowed to do that!'' @ NL @
     ''    I want to have in your output links to hotels websites and flights websites (if possible).'' @ NL @
     ''    I want to have as well the logo of the hotel. (if possible).'' @ NL @
     ''    In your output always include the price of the flight and the price of the hotel and the currency as well (if possible).'' @ NL @
     ''    for example for hotels-'' @ NL @
     ''    Rate: $581 per night'' @ NL @
     ''    Total: $3,488'' @ NL @
     ''    ''"

definition TOOLS :: "env \<Rightarrow> tool list" where
  "TOOLS env =
     [\<lparr>t_name = ''flights_finder'', t_invoke = invoke_flights_finder env\<rparr>,
      \<lparr>t_name = ''hotels_finder'', t_invoke = invoke_hotels_finder env\<rparr>,
      \<lparr>t_name = ''weather_check'', t_invoke = invoke_weather_check env\<rparr>]"

section \<open>The agent\<close>

text \<open>
  \<open>error_count\<close> and \<open>max_retries\<close> are the attributes set by the constructor. The two
  other fields record the effects of the instance: every request sent to the provider and
  every tool invocation made, in order.
\<close>

record agent =
  error_count :: nat
  max_retries :: nat
  llm_requests :: "message list list"
  tool_invocations :: "(string \<times> args) list"

definition Agent_init :: agent where
  "Agent_init = \<lparr>error_count = 0, max_retries = 3, llm_requests = [], tool_invocations = []\<rparr>"

text \<open>The registry \<open>{t.name: t for t in TOOLS}\<close>: a later entry replaces an earlier one.\<close>

definition tools_of :: "env \<Rightarrow> string \<rightharpoonup> tool" where
  "tools_of env = foldl (\<lambda>m t. m(t_name t \<mapsto> t)) Map.empty (TOOLS env)"

text \<open>
  One call of the bound chat model: the request is sent, and the provider either fails or
  answers with an assistant message.
\<close>

definition tools_llm_invoke :: "env \<Rightarrow> agent \<Rightarrow> message list \<Rightarrow> (exn + message) \<times> agent" where
  "tools_llm_invoke env a messages =
     (let a' = a\<lparr>llm_requests := llm_requests a @ [messages]\<rparr> in
      case provider env (length (llm_requests a)) messages of
        Inl e \<Rightarrow> (Inl (ProviderError e), a')
      | Inr (c, calls) \<Rightarrow> (Inr (AIMessage c calls), a'))"

datatype route = route_more_tools | route_done

definition exists_action :: "message list \<Rightarrow> exn + route" where
  "exists_action messages =
     (if messages = [] then Inl IndexError
      else case last messages of
             AIMessage c calls \<Rightarrow>
               if length calls > 0 then Inr route_more_tools else Inr route_done
           | _ \<Rightarrow> Inr route_done)"

definition call_tools_llm :: "env \<Rightarrow> agent \<Rightarrow> message list \<Rightarrow> (exn + message list) \<times> agent" where
  "call_tools_llm env a messages =
     (case tools_llm_invoke env a
             (SystemMessage (TOOLS_SYSTEM_PROMPT (CURRENT_YEAR env)) # messages) of
        (Inl e, a') \<Rightarrow> (Inl e, a')
      | (Inr message, a') \<Rightarrow> (Inr [message], a'))"

definition format_error_message :: "string \<Rightarrow> string \<Rightarrow> string" where
  "format_error_message tool_name error =
     ''['' @ upper tool_name @ '' ERROR] '' @ error @
     ''. The assistant will continue with available information.''"

text \<open>\<open>isinstance(result, dict) and 'error' in result\<close>, giving \<open>result['error']\<close>.\<close>

fun error_entry :: "pyval \<Rightarrow> pyval option" where
  "error_entry (PyDict kvs s) = map_of kvs ''error''"
| "error_entry v = None"

text \<open>
  The body of the loop over the tool calls. The loop state is the list of results, the
  list of failed tool names and the agent.
\<close>

definition invoke_tool_call ::
  "env \<Rightarrow> message list \<times> string list \<times> agent \<Rightarrow> tool_call
     \<Rightarrow> message list \<times> string list \<times> agent" where
  "invoke_tool_call env st tool_call =
     (case st of (results, failed_tools, a) \<Rightarrow>
      let tool_name = tc_name tool_call; tool_id = tc_id tool_call in
      (case tools_of env tool_name of
        None \<Rightarrow>
          (let error_msg = format_error_message tool_name
                 (''Tool '' @ QUOTE @ tool_name @ QUOTE @ '' not found'')
           in (results @ [ToolMessage tool_id tool_name error_msg],
               failed_tools @ [tool_name], a))
      | Some t \<Rightarrow>
          (let a' = a\<lparr>tool_invocations :=
                        tool_invocations a @ [(tool_name, tc_args tool_call)]\<rparr> in
           case t_invoke t (length (tool_invocations a)) (tc_args tool_call) of
             Raises e \<Rightarrow>
               (results @ [ToolMessage tool_id tool_name (format_error_message tool_name e)],
                failed_tools @ [tool_name], a')
           | Returns result \<Rightarrow>
               (case error_entry result of
                  Some err \<Rightarrow>
                    (results @ [ToolMessage tool_id tool_name
                                  (format_error_message tool_name (py_str err))],
                     failed_tools @ [tool_name], a')
                | None \<Rightarrow>
                    (results @ [ToolMessage tool_id tool_name (py_str result)],
                     failed_tools, a')))))"

definition run_tool_calls ::
  "env \<Rightarrow> agent \<Rightarrow> tool_call list \<Rightarrow> message list \<times> string list \<times> agent" where
  "run_tool_calls env a tool_calls = foldl (invoke_tool_call env) ([], [], a) tool_calls"

definition fallback_prompt :: "string \<Rightarrow> string list \<Rightarrow> string" where
  "fallback_prompt original_prompt failed_tools =
     NL @
     ''        The following tools failed: '' @ join '', '' failed_tools @ ''.'' @ NL @
     ''        Original request: '' @ original_prompt @ NL @
     ''        '' @ NL @
     ''        Please generate a travel plan using only the information we have available.'' @ NL @
     ''        Focus on providing:'' @ NL @
     ''        1. A general daily itinerary'' @ NL @
     ''        2. Local attractions and restaurant recommendations'' @ NL @
     ''        3. General packing tips'' @ NL @
     ''        4. A basic travel checklist'' @ NL @
     ''        '' @ NL @
     ''        Clearly indicate which information is missing and provide alternative suggestions where possible.'' @ NL @
     ''        ''"

definition generate_fallback_plan ::
  "env \<Rightarrow> agent \<Rightarrow> string \<Rightarrow> string list \<Rightarrow> (exn + message) \<times> agent" where
  "generate_fallback_plan env a original_prompt failed_tools =
     tools_llm_invoke env a
       [SystemMessage (TOOLS_SYSTEM_PROMPT (CURRENT_YEAR env)),
        HumanMessage (fallback_prompt original_prompt failed_tools)]"

text \<open>
  The node \<open>invoke_tools\<close>. The counter is an attribute of the instance, so an increment
  outlives an exception raised later in the same pass: the agent is returned in both cases.
\<close>

definition invoke_tools :: "env \<Rightarrow> agent \<Rightarrow> message list \<Rightarrow> (exn + message list) \<times> agent" where
  "invoke_tools env a messages =
     (if messages = [] then (Inl IndexError, a)
      else case last messages of
        AIMessage c tool_calls \<Rightarrow>
          (case run_tool_calls env a tool_calls of (results, failed_tools, a1) \<Rightarrow>
           let a2 = (if failed_tools \<noteq> [] then a1\<lparr>error_count := error_count a1 + 1\<rparr> else a1)
           in if error_count a2 \<ge> max_retries a2
              then (case generate_fallback_plan env a2 (content (hd messages)) failed_tools of
                      (Inl e, a3) \<Rightarrow> (Inl e, a3)
                    | (Inr final_message, a3) \<Rightarrow> (Inr [final_message], a3))
              else (Inr results, a2))
      | _ \<Rightarrow> (Inl AttributeError, a))"

section \<open>The graph\<close>

text \<open>
  The compiled graph: entry point \<open>call_tools_llm\<close>, a conditional edge on
  \<open>exists_action\<close> to \<open>invoke_tools\<close> or to the end, and an edge from \<open>invoke_tools\<close> back
  to \<open>call_tools_llm\<close>. Every node's output is added to the message list. The first
  argument bounds the number of visits of \<open>call_tools_llm\<close>.
\<close>

datatype outcome =
    Done "message list"
  | Raised exn "message list"
  | OutOfFuel "message list"

fun run_graph :: "nat \<Rightarrow> env \<Rightarrow> agent \<Rightarrow> message list \<Rightarrow> outcome \<times> agent" where
  "run_graph 0 env a messages = (OutOfFuel messages, a)"
| "run_graph (Suc n) env a messages =
     (case call_tools_llm env a messages of
        (Inl e, a1) \<Rightarrow> (Raised e messages, a1)
      | (Inr new, a1) \<Rightarrow>
          (let messages1 = messages @ new in
           case exists_action messages1 of
             Inl e \<Rightarrow> (Raised e messages1, a1)
           | Inr route_done \<Rightarrow> (Done messages1, a1)
           | Inr route_more_tools \<Rightarrow>
               (case invoke_tools env a1 messages1 of
                  (Inl e, a2) \<Rightarrow> (Raised e messages1, a2)
                | (Inr new2, a2) \<Rightarrow> run_graph n env a2 (messages1 @ new2))))"

fun messages_of :: "outcome \<Rightarrow> message list" where
  "messages_of (Done ms) = ms"
| "messages_of (Raised e ms) = ms"
| "messages_of (OutOfFuel ms) = ms"

section \<open>The degraded-result check of the presentation layer\<close>

text \<open>
  In \<open>send_message\<close> the content of the last message of the run is searched for two
  markers; \<open>x in y\<close> on strings is the contiguous-substring test.
\<close>

definition error_markers :: "string list" where
  "error_markers = [''[FLIGHTS ERROR]'', ''[HOTELS ERROR]'']"

definition send_message_warns :: "string \<Rightarrow> bool" where
  "send_message_warns assistant_response =
     list_ex (\<lambda>error_marker. sublist error_marker assistant_response) error_markers"

section \<open>The weather tool\<close>

text \<open>
  What \<open>weather_check\<close> reads from outside: the environment variable, the clock, the
  date parser of the standard library (the day number of the parsed date, or nothing when
  it raises \<open>ValueError\<close>) and the forecast service. The service call and the reading of
  its answer sit in one \<open>try\<close> block: any exception there is \<open>UpstreamRaises\<close> with its
  text, an answer without forecast days is \<open>NoForecastDay\<close>, and otherwise the condition
  text and the average, maximum and minimum temperature of the first day are read.
\<close>

record WeatherInput =
  location :: string
  date :: string

datatype upstream =
    UpstreamRaises string
  | NoForecastDay
  | ForecastDay pyval pyval pyval pyval

record weather_env =
  WEATHER_API_KEY :: "string option"
  strptime_date :: "string \<Rightarrow> int option"
  today :: int
  requests_get :: "string \<Rightarrow> string \<Rightarrow> upstream"

definition max_forecast_days :: int where
  "max_forecast_days = 14"

definition weather_check :: "weather_env \<Rightarrow> WeatherInput \<Rightarrow> (string \<times> pyval) list" where
  "weather_check we params =
     (case WEATHER_API_KEY we of
        None \<Rightarrow> [(''error'', PyStr ''WEATHER_API_KEY environment variable is not set.'')]
      | Some api_key \<Rightarrow>
        if api_key = [] then
          [(''error'', PyStr ''WEATHER_API_KEY environment variable is not set.'')]
        else
        (case strptime_date we (date params) of
           None \<Rightarrow>
             [(''error'', PyStr (''Invalid date format: '' @ date params @
                                 ''. Must be in YYYY-MM-DD format.''))]
         | Some forecast_date \<Rightarrow>
           (let days_ahead = forecast_date - today we in
            if days_ahead < 0 then
              [(''error'', PyStr ''Cannot check weather for a past date.'')]
            else if days_ahead > max_forecast_days then
              [(''info'', PyStr (''Real-time weather forecast is not available for '' @
                   date params @ '' in '' @ location params @
                   ''. Here is a general weather summary for this time of year based on historical data and LLM knowledge.''))]
            else
              (case requests_get we (location params) (date params) of
                 UpstreamRaises e \<Rightarrow>
                   [(''error'', PyStr (''Weather API error: '' @ e))]
               | NoForecastDay \<Rightarrow>
                   [(''error'', PyStr (''No weather data available for '' @ location params @
                                       '' on '' @ date params @ ''.''))]
               | ForecastDay condition avg_temp_c max_temp_c min_temp_c \<Rightarrow>
                   [(''location'', PyStr (location params)),
                    (''date'', PyStr (date params)),
                    (''condition'', condition),
                    (''avg_temp_c'', avg_temp_c),
                    (''max_temp_c'', max_temp_c),
                    (''min_temp_c'', min_temp_c),
                    (''source'', PyStr ''WeatherAPI.com'')]))))"

text \<open>A returned map is an error map when it has the key \<open>error\<close>.\<close>

definition is_error_map :: "(string \<times> pyval) list \<Rightarrow> bool" where
  "is_error_map result = (map_of result ''error'' \<noteq> None)"

section \<open>A concrete scenario\<close>

text \<open>
  The flight tool raises, the hotel tool succeeds, the weather tool returns an error map.
  The model asks for a flight and a hotel search on each of its first three turns and
  again on its fifth; its fourth, sixth and seventh answers carry no tool call.
\<close>

definition trip_calls :: "tool_call list" where
  "trip_calls =
     [\<lparr>tc_name = ''flights_finder'', tc_id = ''call_1'', tc_args = []\<rparr>,
      \<lparr>tc_name = ''hotels_finder'', tc_id = ''call_2'', tc_args = []\<rparr>]"

definition trip_env :: env where
  "trip_env =
     \<lparr>CURRENT_YEAR = 2025,
      invoke_flights_finder = (\<lambda>k a. Raises ''API key missing''),
      invoke_hotels_finder = (\<lambda>k a. Returns (PyOther ''[]'')),
      invoke_weather_check = (\<lambda>k a. Returns
         (PyDict [(''error'', PyStr ''Cannot check weather for a past date.'')]
                 ''{error: Cannot check weather for a past date.}'')),
      provider = (\<lambda>k req.
         if k = 3 then Inr (''Fallback plan'', [])
         else if k = 5 then Inr (''Second fallback plan'', [])
         else if k = 6 then Inr (''Closing answer'', [])
         else Inr ([], trip_calls))\<rparr>"

definition down_env :: env where
  "down_env = trip_env\<lparr>provider := (\<lambda>k req. Inl ''rate limit exceeded'')\<rparr>"

text \<open>
  A weather environment in which today is 2024-04-24 (day 739000) and the parser knows
  six dates: a past one, today, the last day of the horizon, the first day beyond it, and
  a far one; every other text is malformed.
\<close>

definition paris_weather_env :: weather_env where
  "paris_weather_env =
     \<lparr>WEATHER_API_KEY = Some ''key'',
      strptime_date = (\<lambda>s. if s = ''2024-01-01'' then Some 738886
                          else if s = ''2030-01-01'' then Some 741078
                          else if s = ''2024-04-23'' then Some 738999
                          else if s = ''2024-04-24'' then Some 739000
                          else if s = ''2024-05-08'' then Some 739014
                          else if s = ''2024-05-09'' then Some 739015
                          else None),
      today = 739000,
      requests_get = (\<lambda>loc d. ForecastDay (PyStr ''Sunny'') (PyOther ''18.2'')
                                      (PyOther ''23.0'') (PyOther ''12.5''))\<rparr>"

definition nokey_weather_env :: weather_env where
  "nokey_weather_env = paris_weather_env\<lparr>WEATHER_API_KEY := None\<rparr>"

text \<open>
  A provider that answers its first request with the two searches and fails from then on,
  and an agent one failing pass away from the threshold.
\<close>

definition late_fail_env :: env where
  "late_fail_env = trip_env\<lparr>provider := (\<lambda>k req.
      if k = 0 then Inr ([], trip_calls) else Inl ''rate limit exceeded'')\<rparr>"

definition near_threshold_agent :: agent where
  "near_threshold_agent =
     \<lparr>error_count = 2, max_retries = 3, llm_requests = [], tool_invocations = []\<rparr>"

text \<open>
  The error text of a tool call that the agent makes in state \<open>a\<close>, when the call fails:
  the text of the exception raised inside the \<open>try\<close> block (the tool is not registered,
  or the tool raises), or the text of the \<open>error\<close> entry of a returned error map. A call
  that succeeds has none.
\<close>

definition call_failure :: "env \<Rightarrow> agent \<Rightarrow> tool_call \<Rightarrow> string option" where
  "call_failure env a c =
     (case tools_of env (tc_name c) of
        None \<Rightarrow> Some (''Tool '' @ QUOTE @ tc_name c @ QUOTE @ '' not found'')
      | Some t \<Rightarrow>
          (case t_invoke t (length (tool_invocations a)) (tc_args c) of
             Raises e \<Rightarrow> Some e
           | Returns result \<Rightarrow>
               (case error_entry result of Some err \<Rightarrow> Some (py_str err) | None \<Rightarrow> None)))"

definition errmap_env :: env where
  "errmap_env = trip_env\<lparr>invoke_flights_finder := (\<lambda>k a. Returns
      (PyDict [(''error'', PyStr ''API key missing'')] ''{error: API key missing}''))\<rparr>"

definition failing_calls :: "tool_call list" where
  "failing_calls =
     [\<lparr>tc_name = ''flights_finder'', tc_id = ''call_1'', tc_args = []\<rparr>,
      \<lparr>tc_name = ''weather_check'', tc_id = ''call_2'', tc_args = []\<rparr>,
      \<lparr>tc_name = ''car_rental'', tc_id = ''call_3'', tc_args = []\<rparr>]"

definition exhausted_agent :: agent where
  "exhausted_agent =
     \<lparr>error_count = 3, max_retries = 3, llm_requests = [[], [], []], tool_invocations = []\<rparr>"

definition hotel_calls :: "tool_call list" where
  "hotel_calls = [\<lparr>tc_name = ''hotels_finder'', tc_id = ''call_9'', tc_args = []\<rparr>]"

section \<open>Properties of the tool executor\<close>

lemma tools_of_simps:
  "tools_of env nm =
     (if nm = ''weather_check''
      then Some \<lparr>t_name = ''weather_check'', t_invoke = invoke_weather_check env\<rparr>
      else if nm = ''hotels_finder''
      then Some \<lparr>t_name = ''hotels_finder'', t_invoke = invoke_hotels_finder env\<rparr>
      else if nm = ''flights_finder''
      then Some \<lparr>t_name = ''flights_finder'', t_invoke = invoke_flights_finder env\<rparr>
      else None)"
  by (simp add: tools_of_def TOOLS_def)

lemma invoke_tool_call_shape:
  "\<exists>body fs' a'. invoke_tool_call env (rs, fs, a) c =
      (rs @ [ToolMessage (tc_id c) (tc_name c) body], fs', a')"
  by (simp add: invoke_tool_call_def Let_def split: option.split tool_outcome.split)

lemma invoke_tool_call_agent:
  assumes "invoke_tool_call env (rs, fs, a) c = (rs', fs', a')"
  shows "error_count a' = error_count a \<and> max_retries a' = max_retries a
         \<and> llm_requests a' = llm_requests a"
  using assms
  by (auto simp add: invoke_tool_call_def Let_def split: option.splits tool_outcome.splits)

lemma run_tool_calls_snoc:
  "run_tool_calls env a (calls @ [c]) = invoke_tool_call env (run_tool_calls env a calls) c"
  by (simp add: run_tool_calls_def)

lemma run_tool_calls_agent:
  "run_tool_calls env a calls = (rs, fs, a') \<Longrightarrow>
     error_count a' = error_count a \<and> max_retries a' = max_retries a
     \<and> llm_requests a' = llm_requests a"
proof (induction calls arbitrary: rs fs a' rule: rev_induct)
  case Nil
  then show ?case by (simp add: run_tool_calls_def)
next
  case (snoc c calls)
  obtain rs0 fs0 a0 where st: "run_tool_calls env a calls = (rs0, fs0, a0)"
    by (cases "run_tool_calls env a calls") auto
  from snoc.prems have "invoke_tool_call env (rs0, fs0, a0) c = (rs, fs, a')"
    by (simp add: run_tool_calls_snoc st)
  from invoke_tool_call_agent[OF this] snoc.IH[OF st] show ?case by simp
qed

lemma run_tool_calls_results:
  "map tool_call_id (fst (run_tool_calls env a calls)) = map (\<lambda>c. Some (tc_id c)) calls \<and>
   map message_name (fst (run_tool_calls env a calls)) = map (\<lambda>c. Some (tc_name c)) calls"
proof (induction calls rule: rev_induct)
  case Nil
  then show ?case by (simp add: run_tool_calls_def)
next
  case (snoc c calls)
  obtain rs0 fs0 a0 where st: "run_tool_calls env a calls = (rs0, fs0, a0)"
    by (cases "run_tool_calls env a calls") auto
  obtain body fs1 a1 where
    "invoke_tool_call env (rs0, fs0, a0) c = (rs0 @ [ToolMessage (tc_id c) (tc_name c) body], fs1, a1)"
    using invoke_tool_call_shape by blast
  with snoc.IH st show ?case by (simp add: run_tool_calls_snoc)
qed

text \<open>
  Claim C2. For a sequence of \<open>N\<close> tool-call requests the loop over the requests builds
  exactly \<open>N\<close> result messages, in the order of the requests; the message at each position
  is a tool message that carries the call identifier and the tool name of the request at
  that position, whatever the registry holds and however each tool call ends. When the
  pass leaves the failure counter below the threshold, these \<open>N\<close> messages are what
  \<open>invoke_tools\<close> returns.
\<close>

theorem tool_executor_one_result_per_request:
  "length (fst (run_tool_calls env a calls)) = length calls \<and>
   map tool_call_id (fst (run_tool_calls env a calls)) = map (\<lambda>c. Some (tc_id c)) calls \<and>
   map message_name (fst (run_tool_calls env a calls)) = map (\<lambda>c. Some (tc_name c)) calls \<and>
   (messages \<noteq> [] \<and> last messages = AIMessage reply calls \<and>
    error_count (snd (invoke_tools env a messages)) < max_retries a \<longrightarrow>
      fst (invoke_tools env a messages) = Inr (fst (run_tool_calls env a calls)))"
proof -
  have eqs: "map tool_call_id (fst (run_tool_calls env a calls)) = map (\<lambda>c. Some (tc_id c)) calls"
    using run_tool_calls_results[of env a calls] by simp
  have len: "length (fst (run_tool_calls env a calls)) = length calls"
    using arg_cong[OF eqs, of length] by simp
  have pass: "fst (invoke_tools env a messages) = Inr (fst (run_tool_calls env a calls))"
    if h: "messages \<noteq> []" "last messages = AIMessage reply calls"
          "error_count (snd (invoke_tools env a messages)) < max_retries a"
  proof -
    obtain rs fs a1 where r: "run_tool_calls env a calls = (rs, fs, a1)"
      by (cases "run_tool_calls env a calls") auto
    note ag = run_tool_calls_agent[OF r]
    define a2 where "a2 = (if fs \<noteq> [] then a1\<lparr>error_count := error_count a1 + 1\<rparr> else a1)"
    have m: "max_retries a2 = max_retries a" using ag by (simp add: a2_def)
    have inv: "invoke_tools env a messages =
        (if max_retries a2 \<le> error_count a2
         then (case generate_fallback_plan env a2 (content (hd messages)) fs of
                 (Inl e, a3) \<Rightarrow> (Inl e, a3)
               | (Inr final_message, a3) \<Rightarrow> (Inr [final_message], a3))
         else (Inr rs, a2))"
      using h(1,2) by (simp add: invoke_tools_def r a2_def Let_def)
    show ?thesis
    proof (cases "max_retries a2 \<le> error_count a2")
      case False
      with inv r show ?thesis by simp
    next
      case True
      have "error_count (snd (invoke_tools env a messages)) = error_count a2"
        using inv True
        by (simp add: generate_fallback_plan_def tools_llm_invoke_def Let_def
                 split: sum.split prod.split)
      with h(3) True m show ?thesis by simp
    qed
  qed
  from len pass run_tool_calls_results[of env a calls] show ?thesis by blast
qed

lemma invoke_tool_call_failed:
  assumes "call_failure env a c = Some err"
  shows "\<exists>a'. invoke_tool_call env (rs, fs, a) c =
           (rs @ [ToolMessage (tc_id c) (tc_name c) (format_error_message (tc_name c) err)],
            fs @ [tc_name c], a')"
  using assms
  by (auto simp add: invoke_tool_call_def call_failure_def Let_def
           split: option.splits tool_outcome.splits)

lemma invoke_tool_call_succeeded:
  assumes "call_failure env a c = None"
  shows "\<exists>body a'. invoke_tool_call env (rs, fs, a) c =
           (rs @ [ToolMessage (tc_id c) (tc_name c) body], fs, a')"
  using assms
  by (auto simp add: invoke_tool_call_def call_failure_def Let_def
           split: option.splits tool_outcome.splits)

text \<open>
  Claim C4. When a tool call fails with error text \<open>err\<close> (the tool is not registered,
  the tool raises with that text, or the tool returns a map whose \<open>error\<close> entry has that
  text), its result message has exactly the content
  \<open>[<TOOL NAME IN UPPER CASE> ERROR] err. The assistant will continue with available information.\<close>
  and the tool name is recorded as failed. In particular a tool that returns the map
  \<open>{error: X}\<close> and a tool of the same name that raises with message \<open>X\<close> leave the
  loop in the same state: same result message, same failed names.
\<close>

theorem failed_call_uniform_error_format:
  "(call_failure env a c = Some err \<longrightarrow>
      fst (invoke_tool_call env (rs, fs, a) c) =
        rs @ [ToolMessage (tc_id c) (tc_name c)
                (''['' @ upper (tc_name c) @ '' ERROR] '' @ err @
                 ''. The assistant will continue with available information.'')] \<and>
      fst (snd (invoke_tool_call env (rs, fs, a) c)) = fs @ [tc_name c]) \<and>
   (tools_of env1 (tc_name c) = Some t1 \<and>
    t_invoke t1 (length (tool_invocations a)) (tc_args c) = Returns (PyDict kvs s) \<and>
    map_of kvs ''error'' = Some (PyStr X) \<and>
    tools_of env2 (tc_name c) = Some t2 \<and>
    t_invoke t2 (length (tool_invocations a)) (tc_args c) = Raises X \<longrightarrow>
      call_failure env1 a c = Some X \<and> call_failure env2 a c = Some X \<and>
      invoke_tool_call env1 (rs, fs, a) c = invoke_tool_call env2 (rs, fs, a) c)"
proof (intro conjI impI)
  assume f: "call_failure env a c = Some err"
  from invoke_tool_call_failed[OF f, of rs fs]
  show "fst (invoke_tool_call env (rs, fs, a) c) =
        rs @ [ToolMessage (tc_id c) (tc_name c)
                (''['' @ upper (tc_name c) @ '' ERROR] '' @ err @
                 ''. The assistant will continue with available information.'')]"
    by (auto simp add: format_error_message_def)
  from invoke_tool_call_failed[OF f, of rs fs]
  show "fst (snd (invoke_tool_call env (rs, fs, a) c)) = fs @ [tc_name c]"
    by auto
next
  assume h: "tools_of env1 (tc_name c) = Some t1 \<and>
    t_invoke t1 (length (tool_invocations a)) (tc_args c) = Returns (PyDict kvs s) \<and>
    map_of kvs ''error'' = Some (PyStr X) \<and>
    tools_of env2 (tc_name c) = Some t2 \<and>
    t_invoke t2 (length (tool_invocations a)) (tc_args c) = Raises X"
  then show "call_failure env1 a c = Some X" by (simp add: call_failure_def)
  from h show "call_failure env2 a c = Some X" by (simp add: call_failure_def)
  from h show "invoke_tool_call env1 (rs, fs, a) c = invoke_tool_call env2 (rs, fs, a) c"
    by (simp add: invoke_tool_call_def Let_def)
qed

lemma upper_flights_finder: "upper ''flights_finder'' = ''FLIGHTS_FINDER''"
  by code_simp

lemma upper_hotels_finder: "upper ''hotels_finder'' = ''HOTELS_FINDER''"
  by code_simp

lemma upper_weather_check: "upper ''weather_check'' = ''WEATHER_CHECK''"
  by code_simp

theorem failed_call_uniform_error_format_witness:
  "call_failure trip_env Agent_init (hd failing_calls) = Some ''API key missing'' \<and>
   call_failure errmap_env Agent_init (hd failing_calls) = Some ''API key missing'' \<and>
   fst (invoke_tool_call trip_env ([], [], Agent_init) (hd failing_calls)) =
     [ToolMessage ''call_1'' ''flights_finder''
        ''[FLIGHTS_FINDER ERROR] API key missing. The assistant will continue with available information.''] \<and>
   invoke_tool_call errmap_env ([], [], Agent_init) (hd failing_calls) =
     invoke_tool_call trip_env ([], [], Agent_init) (hd failing_calls)"
proof -
  let ?c = "hd failing_calls"
  have n: "tc_name ?c = ''flights_finder''" "tc_id ?c = ''call_1''" "tc_args ?c = []"
    by (simp_all add: failing_calls_def)
  have t1: "tools_of errmap_env (tc_name ?c) =
      Some \<lparr>t_name = ''flights_finder'', t_invoke = invoke_flights_finder errmap_env\<rparr>"
    by (simp add: n tools_of_simps)
  have t2: "tools_of trip_env (tc_name ?c) =
      Some \<lparr>t_name = ''flights_finder'', t_invoke = invoke_flights_finder trip_env\<rparr>"
    by (simp add: n tools_of_simps)
  have r1: "t_invoke \<lparr>t_name = ''flights_finder'', t_invoke = invoke_flights_finder errmap_env\<rparr>
        (length (tool_invocations Agent_init)) (tc_args ?c) =
      Returns (PyDict [(''error'', PyStr ''API key missing'')] ''{error: API key missing}'')"
    by (simp add: errmap_env_def)
  have r2: "t_invoke \<lparr>t_name = ''flights_finder'', t_invoke = invoke_flights_finder trip_env\<rparr>
        (length (tool_invocations Agent_init)) (tc_args ?c) = Raises ''API key missing''"
    by (simp add: trip_env_def)
  have m: "map_of [(''error'', PyStr ''API key missing'')] ''error'' = Some (PyStr ''API key missing'')"
    by simp
  let ?t1 = "\<lparr>t_name = ''flights_finder'', t_invoke = invoke_flights_finder errmap_env\<rparr>"
  let ?t2 = "\<lparr>t_name = ''flights_finder'', t_invoke = invoke_flights_finder trip_env\<rparr>"
  note inst = failed_call_uniform_error_format[of trip_env Agent_init ?c "''API key missing''"
      "[]" "[]" errmap_env ?t1 "[(''error'', PyStr ''API key missing'')]"
      "''{error: API key missing}''" "''API key missing''" trip_env ?t2]
  from inst t1 t2 r1 r2 m
  have eq: "call_failure errmap_env Agent_init ?c = Some ''API key missing''"
           "call_failure trip_env Agent_init ?c = Some ''API key missing''"
           "invoke_tool_call errmap_env ([], [], Agent_init) ?c =
            invoke_tool_call trip_env ([], [], Agent_init) ?c"
    by blast+
  from inst eq(2)
  have "fst (invoke_tool_call trip_env ([], [], Agent_init) ?c) =
     [] @ [ToolMessage (tc_id ?c) (tc_name ?c)
        (''['' @ upper (tc_name ?c) @ '' ERROR] '' @ ''API key missing'' @
         ''. The assistant will continue with available information.'')]"
    by blast
  with eq show ?thesis
    by (simp add: n upper_flights_finder)
qed

section \<open>Properties of the nodes\<close>

lemma tools_llm_invoke_snd:
  "snd (tools_llm_invoke env a req) = a\<lparr>llm_requests := llm_requests a @ [req]\<rparr>"
  by (simp add: tools_llm_invoke_def Let_def split: sum.split prod.split)

lemma tools_llm_invoke_fst:
  "fst (tools_llm_invoke env a req) =
     (case provider env (length (llm_requests a)) req of
        Inl e \<Rightarrow> Inl (ProviderError e) | Inr (c, cs) \<Rightarrow> Inr (AIMessage c cs))"
  by (simp add: tools_llm_invoke_def Let_def split: sum.split prod.split)

lemma call_tools_llm_snd:
  "snd (call_tools_llm env a messages) =
     a\<lparr>llm_requests := llm_requests a @
          [SystemMessage (TOOLS_SYSTEM_PROMPT (CURRENT_YEAR env)) # messages]\<rparr>"
proof -
  obtain r b where t: "tools_llm_invoke env a
      (SystemMessage (TOOLS_SYSTEM_PROMPT (CURRENT_YEAR env)) # messages) = (r, b)"
    by (cases "tools_llm_invoke env a
      (SystemMessage (TOOLS_SYSTEM_PROMPT (CURRENT_YEAR env)) # messages)") auto
  with tools_llm_invoke_snd[of env a "SystemMessage (TOOLS_SYSTEM_PROMPT (CURRENT_YEAR env)) # messages"]
  show ?thesis by (simp add: call_tools_llm_def split: sum.split)
qed

lemma call_tools_llm_fst:
  "fst (call_tools_llm env a messages) =
     (case provider env (length (llm_requests a))
             (SystemMessage (TOOLS_SYSTEM_PROMPT (CURRENT_YEAR env)) # messages) of
        Inl e \<Rightarrow> Inl (ProviderError e) | Inr (c, cs) \<Rightarrow> Inr [AIMessage c cs])"
  by (simp add: call_tools_llm_def tools_llm_invoke_def Let_def split: sum.split prod.split)

text \<open>The pass, once the last message is known to be an assistant message.\<close>

lemma invoke_tools_pass:
  assumes "messages \<noteq> []" and "last messages = AIMessage reply calls"
    and "run_tool_calls env a calls = (results, failed_tools, a1)"
  shows "invoke_tools env a messages =
     (let a2 = (if failed_tools \<noteq> [] then a1\<lparr>error_count := error_count a1 + 1\<rparr> else a1)
      in if error_count a2 \<ge> max_retries a2
         then (case generate_fallback_plan env a2 (content (hd messages)) failed_tools of
                 (Inl e, a3) \<Rightarrow> (Inl e, a3)
               | (Inr final_message, a3) \<Rightarrow> (Inr [final_message], a3))
         else (Inr results, a2))"
  using assms by (simp add: invoke_tools_def)

lemma invoke_tools_error_count:
  assumes "messages \<noteq> []" and "last messages = AIMessage reply calls"
  shows "error_count (snd (invoke_tools env a messages)) =
           (if fst (snd (run_tool_calls env a calls)) = [] then error_count a
            else error_count a + 1)
         \<and> max_retries (snd (invoke_tools env a messages)) = max_retries a"
proof -
  obtain results failed_tools a1 where r: "run_tool_calls env a calls = (results, failed_tools, a1)"
    by (cases "run_tool_calls env a calls") auto
  note ag = run_tool_calls_agent[OF r]
  define a2 where "a2 = (if failed_tools \<noteq> [] then a1\<lparr>error_count := error_count a1 + 1\<rparr> else a1)"
  have a2: "error_count a2 = (if failed_tools = [] then error_count a else error_count a + 1)"
           "max_retries a2 = max_retries a"
    using ag by (simp_all add: a2_def)
  have fb: "error_count (snd (generate_fallback_plan env a2 p fs)) = error_count a2 \<and>
            max_retries (snd (generate_fallback_plan env a2 p fs)) = max_retries a2" for p fs
    by (simp add: generate_fallback_plan_def tools_llm_invoke_snd)
  have s: "snd (invoke_tools env a messages) =
      (if error_count a2 \<ge> max_retries a2
       then snd (generate_fallback_plan env a2 (content (hd messages)) failed_tools) else a2)"
    using invoke_tools_pass[OF assms r]
    by (simp add: a2_def Let_def split: prod.split sum.split)
  have "error_count (snd (invoke_tools env a messages)) = error_count a2 \<and>
        max_retries (snd (invoke_tools env a messages)) = max_retries a2"
    unfolding s using fb by (cases "error_count a2 \<ge> max_retries a2") simp_all
  with a2 r show ?thesis by simp
qed

lemma invoke_tool_call_failed_names:
  "fst (snd (invoke_tool_call env (rs, fs, a) c)) =
     (if call_failure env a c = None then fs else fs @ [tc_name c])"
  by (simp add: invoke_tool_call_def call_failure_def Let_def
           split: option.split tool_outcome.split)

text \<open>
  Claim C3. A pass of \<open>invoke_tools\<close> over the tool calls of the last assistant message
  leaves the failure counter unchanged when no call of the pass failed, and adds exactly one
  to it when at least one call failed, however many did. The list of failed names of a pass
  grows by the name of a call exactly when that call fails.
\<close>

theorem counter_increments_once_per_failing_pass:
  "(messages \<noteq> [] \<and> last messages = AIMessage reply calls \<longrightarrow>
      error_count (snd (invoke_tools env a messages)) =
        (if fst (snd (run_tool_calls env a calls)) = [] then error_count a
         else error_count a + 1)) \<and>
   fst (snd (run_tool_calls env a (calls @ [c]))) =
     (if call_failure env (snd (snd (run_tool_calls env a calls))) c = None
      then fst (snd (run_tool_calls env a calls))
      else fst (snd (run_tool_calls env a calls)) @ [tc_name c])"
proof (intro conjI impI)
  assume "messages \<noteq> [] \<and> last messages = AIMessage reply calls"
  then show "error_count (snd (invoke_tools env a messages)) =
        (if fst (snd (run_tool_calls env a calls)) = [] then error_count a
         else error_count a + 1)"
    using invoke_tools_error_count[of messages reply calls env a] by simp
next
  obtain rs fs b where r: "run_tool_calls env a calls = (rs, fs, b)"
    by (cases "run_tool_calls env a calls") auto
  show "fst (snd (run_tool_calls env a (calls @ [c]))) =
     (if call_failure env (snd (snd (run_tool_calls env a calls))) c = None
      then fst (snd (run_tool_calls env a calls))
      else fst (snd (run_tool_calls env a calls)) @ [tc_name c])"
    by (simp add: run_tool_calls_snoc r invoke_tool_call_failed_names)
qed

lemma failing_calls_run:
  "fst (snd (run_tool_calls trip_env Agent_init failing_calls)) =
     [''flights_finder'', ''weather_check'', ''car_rental'']"
  by (simp add: run_tool_calls_def failing_calls_def invoke_tool_call_def tools_of_simps
        trip_env_def Agent_init_def Let_def)

theorem counter_increments_once_per_failing_pass_witness:
  "fst (snd (run_tool_calls trip_env Agent_init failing_calls)) =
     [''flights_finder'', ''weather_check'', ''car_rental''] \<and>
   error_count (snd (invoke_tools trip_env Agent_init
      [HumanMessage ''Plan Sydney to Melbourne'', AIMessage [] failing_calls])) = 1"
proof -
  have h: "[HumanMessage ''Plan Sydney to Melbourne'', AIMessage [] failing_calls] \<noteq> [] \<and>
        last [HumanMessage ''Plan Sydney to Melbourne'', AIMessage [] failing_calls] =
        AIMessage [] failing_calls"
    by simp
  from counter_increments_once_per_failing_pass[of
      "[HumanMessage ''Plan Sydney to Melbourne'', AIMessage [] failing_calls]" "[]" failing_calls
      trip_env Agent_init] h
  have "error_count (snd (invoke_tools trip_env Agent_init
      [HumanMessage ''Plan Sydney to Melbourne'', AIMessage [] failing_calls])) =
        (if fst (snd (run_tool_calls trip_env Agent_init failing_calls)) = []
         then error_count Agent_init else error_count Agent_init + 1)"
    by blast
  then show ?thesis unfolding failing_calls_run by (simp add: Agent_init_def)
qed

theorem tool_executor_one_result_per_request_witness:
  "fst (invoke_tools trip_env Agent_init
          [HumanMessage ''Plan Sydney to Melbourne'', AIMessage [] failing_calls]) =
     Inr (fst (run_tool_calls trip_env Agent_init failing_calls)) \<and>
   length (fst (run_tool_calls trip_env Agent_init failing_calls)) = 3 \<and>
   map tool_call_id (fst (run_tool_calls trip_env Agent_init failing_calls)) =
     [Some ''call_1'', Some ''call_2'', Some ''call_3'']"
proof -
  let ?ms = "[HumanMessage ''Plan Sydney to Melbourne'', AIMessage [] failing_calls]"
  have c: "error_count (snd (invoke_tools trip_env Agent_init ?ms)) = 1"
    using invoke_tools_error_count[of ?ms "[]" failing_calls trip_env Agent_init]
    unfolding failing_calls_run by (simp add: Agent_init_def)
  have h: "?ms \<noteq> [] \<and> last ?ms = AIMessage [] failing_calls \<and>
        error_count (snd (invoke_tools trip_env Agent_init ?ms)) < max_retries Agent_init"
    unfolding c by (simp add: Agent_init_def)
  from tool_executor_one_result_per_request[of trip_env Agent_init failing_calls ?ms "[]"] h
  show ?thesis by (simp add: failing_calls_def)
qed

lemma run_tool_calls_length:
  "length (fst (run_tool_calls env a calls)) = length calls"
proof -
  have "length (map tool_call_id (fst (run_tool_calls env a calls))) =
        length (map (\<lambda>c. Some (tc_id c)) calls)"
    using run_tool_calls_results[of env a calls] by (simp only:)
  then show ?thesis by simp
qed

lemma call_failure_unregistered:
  "tools_of env (tc_name c) = None \<Longrightarrow>
     call_failure env b c = Some (''Tool '' @ QUOTE @ tc_name c @ QUOTE @ '' not found'')"
  by (simp add: call_failure_def)

lemma run_tool_calls_unregistered:
  assumes "i < length calls" and "tools_of env (tc_name (calls ! i)) = None"
  shows "fst (run_tool_calls env a calls) ! i =
           ToolMessage (tc_id (calls ! i)) (tc_name (calls ! i))
             (format_error_message (tc_name (calls ! i))
                (''Tool '' @ QUOTE @ tc_name (calls ! i) @ QUOTE @ '' not found''))
         \<and> tc_name (calls ! i) \<in> set (fst (snd (run_tool_calls env a calls)))"
  using assms
proof (induction calls rule: rev_induct)
  case Nil
  then show ?case by simp
next
  case (snoc c calls)
  obtain rs fs b where r: "run_tool_calls env a calls = (rs, fs, b)"
    by (cases "run_tool_calls env a calls") auto
  have len: "length rs = length calls"
    using run_tool_calls_length[of env a calls] r by simp
  obtain body fs1 b1 where step: "invoke_tool_call env (rs, fs, b) c =
      (rs @ [ToolMessage (tc_id c) (tc_name c) body], fs1, b1)"
    using invoke_tool_call_shape by blast
  have names: "fs1 = (if call_failure env b c = None then fs else fs @ [tc_name c])"
    using invoke_tool_call_failed_names[of env rs fs b c] step by simp
  show ?case
  proof (cases "i < length calls")
    case True
    with snoc have ih: "rs ! i = ToolMessage (tc_id (calls ! i)) (tc_name (calls ! i))
             (format_error_message (tc_name (calls ! i))
                (''Tool '' @ QUOTE @ tc_name (calls ! i) @ QUOTE @ '' not found''))
         \<and> tc_name (calls ! i) \<in> set fs"
      by (simp add: nth_append r)
    with True len names show ?thesis
      by (simp add: run_tool_calls_snoc r step nth_append)
  next
    case False
    with snoc.prems have i: "i = length calls" by simp
    with snoc.prems have un: "tools_of env (tc_name c) = None" by simp
    from invoke_tool_call_failed[OF call_failure_unregistered[OF un], of rs fs b]
    show ?thesis
      by (auto simp add: run_tool_calls_snoc r i len nth_append)
  qed
qed

lemma invoke_tools_raises_only_provider:
  assumes "messages \<noteq> []" and "last messages = AIMessage reply calls"
    and "fst (invoke_tools env a messages) = Inl e"
  shows "\<exists>s. e = ProviderError s"
proof -
  obtain results failed_tools a1 where r: "run_tool_calls env a calls = (results, failed_tools, a1)"
    by (cases "run_tool_calls env a calls") auto
  show ?thesis
    using invoke_tools_pass[OF assms(1,2) r] assms(3)
    by (auto simp add: Let_def generate_fallback_plan_def tools_llm_invoke_def
             split: if_splits prod.splits sum.splits)
qed

text \<open>
  Claim C8. When the tool named by the request at position \<open>i\<close> of a pass is not in the
  registry, the result at position \<open>i\<close> is a tool message for that request whose content is
  the uniform error text for \<open>Tool '<name>' not found\<close>, the name is among the failed names
  of the pass, the call counts as a failure like a raising tool does (in every state of the
  agent), the pass adds one to the failure counter, and the only exception that can leave
  the pass is a failure of the provider.
\<close>

theorem unregistered_tool_is_a_failure:
  assumes "messages \<noteq> []" and "last messages = AIMessage reply calls"
    and "i < length calls" and "tools_of env (tc_name (calls ! i)) = None"
  shows "fst (run_tool_calls env a calls) ! i =
           ToolMessage (tc_id (calls ! i)) (tc_name (calls ! i))
             (''['' @ upper (tc_name (calls ! i)) @ '' ERROR] '' @
              (''Tool '' @ QUOTE @ tc_name (calls ! i) @ QUOTE @ '' not found'') @
              ''. The assistant will continue with available information.'')
         \<and> tc_name (calls ! i) \<in> set (fst (snd (run_tool_calls env a calls)))
         \<and> call_failure env b (calls ! i) =
             Some (''Tool '' @ QUOTE @ tc_name (calls ! i) @ QUOTE @ '' not found'')
         \<and> error_count (snd (invoke_tools env a messages)) = error_count a + 1
         \<and> (\<forall>e. fst (invoke_tools env a messages) = Inl e \<longrightarrow> (\<exists>s. e = ProviderError s))"
proof -
  note u = run_tool_calls_unregistered[OF assms(3,4), of a]
  from u have ne: "fst (snd (run_tool_calls env a calls)) \<noteq> []" by auto
  have cnt: "error_count (snd (invoke_tools env a messages)) = error_count a + 1"
    using invoke_tools_error_count[OF assms(1,2), of env a] ne by simp
  from u cnt call_failure_unregistered[OF assms(4), of b]
    invoke_tools_raises_only_provider[OF assms(1,2)]
  show ?thesis by (simp add: format_error_message_def)
qed

lemma upper_car_rental: "upper ''car_rental'' = ''CAR_RENTAL''"
  by code_simp

theorem unregistered_tool_is_a_failure_witness:
  "tools_of trip_env ''car_rental'' = None \<and>
   fst (run_tool_calls trip_env Agent_init failing_calls) ! 2 =
     ToolMessage ''call_3'' ''car_rental''
       (''[CAR_RENTAL ERROR] Tool '' @ QUOTE @ ''car_rental'' @ QUOTE @
        '' not found. The assistant will continue with available information.'') \<and>
   ''car_rental'' \<in> set (fst (snd (run_tool_calls trip_env Agent_init failing_calls))) \<and>
   error_count (snd (invoke_tools trip_env Agent_init
      [HumanMessage ''Plan Sydney to Melbourne'', AIMessage [] failing_calls])) = 1"
proof -
  let ?ms = "[HumanMessage ''Plan Sydney to Melbourne'', AIMessage [] failing_calls]"
  have h1: "?ms \<noteq> []" by simp
  have h2: "last ?ms = AIMessage [] failing_calls" by simp
  have h3: "2 < length failing_calls" by (simp add: failing_calls_def)
  have nm: "tc_name (failing_calls ! 2) = ''car_rental''" "tc_id (failing_calls ! 2) = ''call_3''"
    by (simp_all add: failing_calls_def)
  have h4: "tools_of trip_env (tc_name (failing_calls ! 2)) = None"
    by (simp add: nm tools_of_simps)
  from unregistered_tool_is_a_failure[OF h1 h2 h3 h4, of Agent_init Agent_init] h4
  show ?thesis
    by (simp add: nm upper_car_rental Agent_init_def)
qed

section \<open>The fallback\<close>

lemma invoke_tools_mono:
  "error_count a \<le> error_count (snd (invoke_tools env a messages)) \<and>
   max_retries (snd (invoke_tools env a messages)) = max_retries a"
proof (cases "messages = []")
  case True
  then show ?thesis by (simp add: invoke_tools_def)
next
  case False
  show ?thesis
  proof (cases "last messages")
    case (AIMessage reply calls)
    from invoke_tools_error_count[OF False AIMessage, of env a] show ?thesis by simp
  qed (simp_all add: invoke_tools_def False)
qed

lemma run_graph_mono:
  "error_count a \<le> error_count (snd (run_graph n env a messages)) \<and>
   max_retries (snd (run_graph n env a messages)) = max_retries a"
proof (induction n arbitrary: a messages)
  case 0
  then show ?case by simp
next
  case (Suc n)
  obtain r1 a1 where c: "call_tools_llm env a messages = (r1, a1)"
    by (cases "call_tools_llm env a messages") auto
  have a1: "error_count a1 = error_count a" "max_retries a1 = max_retries a"
    using call_tools_llm_snd[of env a messages] c by simp_all
  show ?case
  proof (cases r1)
    case (Inl e)
    with c a1 show ?thesis by simp
  next
    case (Inr new)
    show ?thesis
    proof (cases "exists_action (messages @ new)")
      case (Inl e)
      with c Inr a1 show ?thesis by simp
    next
      case ea: (Inr route)
      show ?thesis
      proof (cases route)
        case route_done
        with c Inr ea a1 show ?thesis by simp
      next
        case route_more_tools
        obtain r2 a2 where i: "invoke_tools env a1 (messages @ new) = (r2, a2)"
          by (cases "invoke_tools env a1 (messages @ new)") auto
        have a2: "error_count a1 \<le> error_count a2" "max_retries a2 = max_retries a1"
          using invoke_tools_mono[of a1 env "messages @ new"] i by simp_all
        show ?thesis
        proof (cases r2)
          case (Inl e)
          with c Inr ea route_more_tools i a1 a2 show ?thesis by simp
        next
          case r2: (Inr new2)
          from Suc.IH[of a2 "messages @ new @ new2"] a1 a2
          show ?thesis
            using c Inr ea route_more_tools i r2 by simp
        qed
      qed
    qed
  qed
qed

text \<open>
  Claim C9. Once the failure counter of an agent has reached its threshold (3 for every
  agent built by the constructor, and no node changes the threshold), the outcome of every
  later pass of \<open>invoke_tools\<close> is the outcome of the fallback request alone: when the
  provider answers, the pass returns that single assistant message and never the tool
  results, and the prompt names the tools that failed in this pass, none when all calls
  succeeded. The counter is never reset: after a pass, after a model call and after a
  whole run of the graph it is still at or above the threshold.
\<close>

theorem fallback_on_every_pass_after_threshold:
  assumes "max_retries a \<le> error_count a"
    and "messages \<noteq> []" and "last messages = AIMessage reply calls"
  shows "fst (invoke_tools env a messages) =
           (case provider env (length (llm_requests a))
                   [SystemMessage (TOOLS_SYSTEM_PROMPT (CURRENT_YEAR env)),
                    HumanMessage (fallback_prompt (content (hd messages))
                                    (fst (snd (run_tool_calls env a calls))))] of
              Inl e \<Rightarrow> Inl (ProviderError e)
            | Inr (c, cs) \<Rightarrow> Inr [AIMessage c cs])
         \<and> max_retries (snd (invoke_tools env a messages))
             \<le> error_count (snd (invoke_tools env a messages))
         \<and> max_retries (snd (call_tools_llm env a messages))
             \<le> error_count (snd (call_tools_llm env a messages))
         \<and> max_retries (snd (run_graph n env a messages))
             \<le> error_count (snd (run_graph n env a messages))"
proof -
  obtain results failed_tools a1 where r: "run_tool_calls env a calls = (results, failed_tools, a1)"
    by (cases "run_tool_calls env a calls") auto
  note ag = run_tool_calls_agent[OF r]
  define a2 where "a2 = (if failed_tools \<noteq> [] then a1\<lparr>error_count := error_count a1 + 1\<rparr> else a1)"
  have thr: "max_retries a2 \<le> error_count a2" and lg: "llm_requests a2 = llm_requests a"
    using ag assms(1) by (simp_all add: a2_def)
  have "fst (invoke_tools env a messages) =
      (case fst (generate_fallback_plan env a2 (content (hd messages)) failed_tools) of
         Inl e \<Rightarrow> Inl e | Inr m \<Rightarrow> Inr [m])"
    using invoke_tools_pass[OF assms(2,3) r] thr
    by (simp add: a2_def[symmetric] Let_def split: prod.split sum.split)
  then have first: "fst (invoke_tools env a messages) =
           (case provider env (length (llm_requests a))
                   [SystemMessage (TOOLS_SYSTEM_PROMPT (CURRENT_YEAR env)),
                    HumanMessage (fallback_prompt (content (hd messages))
                                    (fst (snd (run_tool_calls env a calls))))] of
              Inl e \<Rightarrow> Inl (ProviderError e)
            | Inr (c, cs) \<Rightarrow> Inr [AIMessage c cs])"
    by (simp add: generate_fallback_plan_def tools_llm_invoke_fst lg r split: sum.split prod.split)
  from first invoke_tools_mono[of a env messages] run_graph_mono[of a n env messages]
    assms(1) call_tools_llm_snd[of env a messages]
  show ?thesis by simp
qed

lemma hotel_calls_run:
  "fst (snd (run_tool_calls trip_env exhausted_agent hotel_calls)) = []"
  by (simp add: run_tool_calls_def hotel_calls_def invoke_tool_call_def tools_of_simps
        trip_env_def exhausted_agent_def Let_def)

theorem fallback_on_every_pass_after_threshold_witness:
  "fst (snd (run_tool_calls trip_env exhausted_agent hotel_calls)) = [] \<and>
   fst (invoke_tools trip_env exhausted_agent
          [HumanMessage ''Plan Sydney to Melbourne'', AIMessage [] hotel_calls]) =
     Inr [AIMessage ''Fallback plan'' []] \<and>
   error_count (snd (invoke_tools trip_env exhausted_agent
          [HumanMessage ''Plan Sydney to Melbourne'', AIMessage [] hotel_calls])) \<ge> 3"
proof -
  let ?ms = "[HumanMessage ''Plan Sydney to Melbourne'', AIMessage [] hotel_calls]"
  have h1: "max_retries exhausted_agent \<le> error_count exhausted_agent"
    by (simp add: exhausted_agent_def)
  have h2: "?ms \<noteq> []" by simp
  have h3: "last ?ms = AIMessage [] hotel_calls" by simp
  have p: "provider trip_env (length (llm_requests exhausted_agent)) req = Inr (''Fallback plan'', [])" for req
    by (simp add: trip_env_def exhausted_agent_def)
  have m: "max_retries (snd (invoke_tools trip_env exhausted_agent ?ms)) = 3"
    using invoke_tools_mono[of exhausted_agent trip_env ?ms] by (simp add: exhausted_agent_def)
  from fallback_on_every_pass_after_threshold[OF h1 h2 h3, of trip_env 0]
  show ?thesis unfolding hotel_calls_run p using m by simp
qed

section \<open>Runs of the graph\<close>

lemma call_tools_llm_cases:
  "(\<exists>e. provider env (length (llm_requests a))
          (SystemMessage (TOOLS_SYSTEM_PROMPT (CURRENT_YEAR env)) # messages) = Inl e \<and>
        fst (call_tools_llm env a messages) = Inl (ProviderError e)) \<or>
   (\<exists>c cs. fst (call_tools_llm env a messages) = Inr [AIMessage c cs])"
  by (cases "provider env (length (llm_requests a))
          (SystemMessage (TOOLS_SYSTEM_PROMPT (CURRENT_YEAR env)) # messages)")
     (auto simp add: call_tools_llm_fst)

lemma exists_action_after_model:
  "exists_action (messages @ [AIMessage c cs]) =
     Inr (if length cs > 0 then route_more_tools else route_done)"
  by (simp add: exists_action_def)

text \<open>What a pass of \<open>invoke_tools\<close> after an assistant message can do.\<close>

lemma invoke_tools_cases:
  assumes "messages \<noteq> []" and "last messages = AIMessage reply calls"
  shows "(\<exists>a2. invoke_tools env a messages = (Inr (fst (run_tool_calls env a calls)), a2) \<and>
               llm_requests a2 = llm_requests a) \<or>
         (\<exists>req a2. hd req = SystemMessage (TOOLS_SYSTEM_PROMPT (CURRENT_YEAR env)) \<and> req \<noteq> [] \<and>
               llm_requests a2 = llm_requests a @ [req] \<and>
               ((\<exists>e. provider env (length (llm_requests a)) req = Inl e \<and>
                     invoke_tools env a messages = (Inl (ProviderError e), a2)) \<or>
                (\<exists>c cs. invoke_tools env a messages = (Inr [AIMessage c cs], a2))))"
proof -
  obtain results failed_tools a1 where r: "run_tool_calls env a calls = (results, failed_tools, a1)"
    by (cases "run_tool_calls env a calls") auto
  note ag = run_tool_calls_agent[OF r]
  define a2 where "a2 = (if failed_tools \<noteq> [] then a1\<lparr>error_count := error_count a1 + 1\<rparr> else a1)"
  have lg: "llm_requests a2 = llm_requests a"
    using ag by (simp add: a2_def)
  note pass = invoke_tools_pass[OF assms r, unfolded Let_def, folded a2_def]
  show ?thesis
  proof (cases "max_retries a2 \<le> error_count a2")
    case False
    with pass lg r show ?thesis by simp
  next
    case True
    let ?req = "[SystemMessage (TOOLS_SYSTEM_PROMPT (CURRENT_YEAR env)),
                 HumanMessage (fallback_prompt (content (hd messages)) failed_tools)]"
    let ?a3 = "a2\<lparr>llm_requests := llm_requests a2 @ [?req]\<rparr>"
    have "(\<exists>e. provider env (length (llm_requests a)) ?req = Inl e \<and>
                     invoke_tools env a messages = (Inl (ProviderError e), ?a3)) \<or>
                (\<exists>c cs. invoke_tools env a messages = (Inr [AIMessage c cs], ?a3))"
      using pass True lg
      by (cases "provider env (length (llm_requests a)) ?req")
         (auto simp add: generate_fallback_plan_def tools_llm_invoke_def Let_def)
    moreover have "hd ?req = SystemMessage (TOOLS_SYSTEM_PROMPT (CURRENT_YEAR env)) \<and> ?req \<noteq> [] \<and>
        llm_requests ?a3 = llm_requests a @ [?req]"
      using lg by simp
    ultimately show ?thesis by blast
  qed
qed

lemma run_tool_calls_no_system:
  "\<forall>m \<in> set (fst (run_tool_calls env a calls)). \<not> is_system m"
proof
  fix m assume "m \<in> set (fst (run_tool_calls env a calls))"
  then have "message_name m \<in> set (map message_name (fst (run_tool_calls env a calls)))"
    by simp
  then have "message_name m \<in> set (map (\<lambda>c. Some (tc_name c)) calls)"
    using run_tool_calls_results[of env a calls] by simp
  then show "\<not> is_system m" by (cases m) auto
qed

lemma run_graph_inv:
  assumes "run_graph n env a messages = (out, a')"
  shows "(\<exists>added. messages_of out = messages @ added \<and> (\<forall>m \<in> set added. \<not> is_system m)) \<and>
         (\<exists>sent. llm_requests a' = llm_requests a @ sent \<and> (\<forall>req \<in> set sent. (req \<noteq> [] \<and> hd req = SystemMessage (TOOLS_SYSTEM_PROMPT (CURRENT_YEAR env))))) \<and>
         (\<forall>x ms. out = Raised x ms \<longrightarrow>
            (\<exists>e. x = ProviderError e \<and> llm_requests a' \<noteq> [] \<and>
                 provider env (length (llm_requests a') - 1) (last (llm_requests a')) = Inl e))"
  using assms
proof (induction n arbitrary: a messages out a')
  case 0
  then show ?case by auto
next
  case (Suc n)
  let ?req = "SystemMessage (TOOLS_SYSTEM_PROMPT (CURRENT_YEAR env)) # messages"
  let ?a1 = "a\<lparr>llm_requests := llm_requests a @ [?req]\<rparr>"
  have snd1: "snd (call_tools_llm env a messages) = ?a1"
    by (rule call_tools_llm_snd)
  from call_tools_llm_cases[of env a messages]
  show ?case
  proof (elim disjE exE conjE)
    fix e
    assume p: "provider env (length (llm_requests a)) ?req = Inl e"
      and f: "fst (call_tools_llm env a messages) = Inl (ProviderError e)"
    from f snd1 have "call_tools_llm env a messages = (Inl (ProviderError e), ?a1)"
      by (metis prod.collapse)
    with Suc.prems have "out = Raised (ProviderError e) messages" "a' = ?a1" by simp_all
    with p show ?thesis by simp
  next
    fix c cs
    assume f: "fst (call_tools_llm env a messages) = Inr [AIMessage c cs]"
    from f snd1 have ct: "call_tools_llm env a messages = (Inr [AIMessage c cs], ?a1)"
      by (metis prod.collapse)
    let ?ms1 = "messages @ [AIMessage c cs]"
    show ?thesis
    proof (cases "length cs > 0")
      case False
      with Suc.prems ct have "out = Done ?ms1" "a' = ?a1"
        by (simp_all add: exists_action_after_model)
      then show ?thesis by simp
    next
      case True
      have ne: "?ms1 \<noteq> []" and la: "last ?ms1 = AIMessage c cs" by simp_all
      from Suc.prems ct True
      have run: "(case invoke_tools env ?a1 ?ms1 of
                    (Inl e, a2) \<Rightarrow> (Raised e ?ms1, a2)
                  | (Inr new2, a2) \<Rightarrow> run_graph n env a2 (?ms1 @ new2)) = (out, a')"
        by (simp add: exists_action_after_model Let_def)
      from invoke_tools_cases[OF ne la, of env ?a1]
      show ?thesis
      proof (elim disjE exE conjE)
        fix a2
        assume i: "invoke_tools env ?a1 ?ms1 = (Inr (fst (run_tool_calls env ?a1 cs)), a2)"
          and l: "llm_requests a2 = llm_requests ?a1"
        let ?new2 = "fst (run_tool_calls env ?a1 cs)"
        from run i have "run_graph n env a2 (?ms1 @ ?new2) = (out, a')" by simp
        from Suc.IH[OF this] l run_tool_calls_no_system[of env ?a1 cs]
        show ?thesis by auto
      next
        fix req a2 e
        assume h: "hd req = SystemMessage (TOOLS_SYSTEM_PROMPT (CURRENT_YEAR env))" "req \<noteq> []"
          "llm_requests a2 = llm_requests ?a1 @ [req]"
          "provider env (length (llm_requests ?a1)) req = Inl e"
          "invoke_tools env ?a1 ?ms1 = (Inl (ProviderError e), a2)"
        with run have "out = Raised (ProviderError e) ?ms1" "a' = a2" by simp_all
        with h show ?thesis by simp
      next
        fix req a2 c2 cs2
        assume h: "hd req = SystemMessage (TOOLS_SYSTEM_PROMPT (CURRENT_YEAR env))" "req \<noteq> []"
          "llm_requests a2 = llm_requests ?a1 @ [req]"
          "invoke_tools env ?a1 ?ms1 = (Inr [AIMessage c2 cs2], a2)"
        with run have "run_graph n env a2 (?ms1 @ [AIMessage c2 cs2]) = (out, a')" by simp
        from Suc.IH[OF this] h(1,2,3)
        show ?thesis by auto
      qed
    qed
  qed
qed

text \<open>A run that stops for lack of fuel can be resumed from where it stopped.\<close>

lemma run_graph_resume:
  "run_graph j env a messages = (OutOfFuel ms, b) \<Longrightarrow>
     run_graph (j + m) env a messages = run_graph m env b ms"
proof (induction j arbitrary: a messages)
  case 0
  then show ?case by simp
next
  case (Suc j)
  from call_tools_llm_cases[of env a messages]
  show ?case
  proof (elim disjE exE conjE)
    fix e
    assume "provider env (length (llm_requests a))
          (SystemMessage (TOOLS_SYSTEM_PROMPT (CURRENT_YEAR env)) # messages) = Inl e"
      and f: "fst (call_tools_llm env a messages) = Inl (ProviderError e)"
    obtain a1 where "call_tools_llm env a messages = (Inl (ProviderError e), a1)"
      using f by (cases "call_tools_llm env a messages") auto
    with Suc.prems show ?thesis by simp
  next
    fix c cs
    assume f: "fst (call_tools_llm env a messages) = Inr [AIMessage c cs]"
    obtain a1 where ct: "call_tools_llm env a messages = (Inr [AIMessage c cs], a1)"
      using f by (cases "call_tools_llm env a messages") auto
    show ?thesis
    proof (cases "length cs > 0")
      case False
      with Suc.prems ct show ?thesis by (simp add: exists_action_after_model)
    next
      case True
      obtain r2 a2 where i: "invoke_tools env a1 (messages @ [AIMessage c cs]) = (r2, a2)"
        by (cases "invoke_tools env a1 (messages @ [AIMessage c cs])") auto
      show ?thesis
      proof (cases r2)
        case (Inl e)
        with Suc.prems ct True i show ?thesis
          by (simp add: exists_action_after_model Let_def)
      next
        case (Inr new2)
        with Suc.prems ct True i
        have "run_graph j env a2 ((messages @ [AIMessage c cs]) @ new2) = (OutOfFuel ms, b)"
          by (simp add: exists_action_after_model Let_def)
        from Suc.IH[OF this] ct True i Inr show ?thesis
          by (simp add: exists_action_after_model Let_def)
      qed
    qed
  qed
qed

lemma model_call_failure_step:
  assumes "provider env (length (llm_requests a))
        (SystemMessage (TOOLS_SYSTEM_PROMPT (CURRENT_YEAR env)) # messages) = Inl e"
  shows "call_tools_llm env a messages =
        (Inl (ProviderError e),
         a\<lparr>llm_requests := llm_requests a @
              [SystemMessage (TOOLS_SYSTEM_PROMPT (CURRENT_YEAR env)) # messages]\<rparr>)"
    and "run_graph (Suc n) env a messages =
        (Raised (ProviderError e) messages,
         a\<lparr>llm_requests := llm_requests a @
              [SystemMessage (TOOLS_SYSTEM_PROMPT (CURRENT_YEAR env)) # messages]\<rparr>)"
proof -
  show c: "call_tools_llm env a messages =
        (Inl (ProviderError e),
         a\<lparr>llm_requests := llm_requests a @
              [SystemMessage (TOOLS_SYSTEM_PROMPT (CURRENT_YEAR env)) # messages]\<rparr>)"
    using assms by (simp add: call_tools_llm_def tools_llm_invoke_def Let_def)
  then show "run_graph (Suc n) env a messages =
        (Raised (ProviderError e) messages,
         a\<lparr>llm_requests := llm_requests a @
              [SystemMessage (TOOLS_SYSTEM_PROMPT (CURRENT_YEAR env)) # messages]\<rparr>)"
    by simp
qed

lemma fallback_call_failure_step:
  assumes p1: "provider env (length (llm_requests b))
        (SystemMessage (TOOLS_SYSTEM_PROMPT (CURRENT_YEAR env)) # ms) = Inr (c, cs)"
    and cs: "cs \<noteq> []"
    and r: "run_tool_calls env
        (b\<lparr>llm_requests := llm_requests b @
             [SystemMessage (TOOLS_SYSTEM_PROMPT (CURRENT_YEAR env)) # ms]\<rparr>) cs =
        (results, failed, b1)"
    and thr: "max_retries b \<le> error_count b + (if failed = [] then 0 else 1)"
    and p2: "provider env (length (llm_requests b) + 1)
        [SystemMessage (TOOLS_SYSTEM_PROMPT (CURRENT_YEAR env)),
         HumanMessage (fallback_prompt (content (hd (ms @ [AIMessage c cs]))) failed)] = Inl e"
  shows "\<exists>b2. run_graph (Suc n) env b ms =
            (Raised (ProviderError e) (ms @ [AIMessage c cs]), b2) \<and>
          error_count b2 = error_count b + (if failed = [] then 0 else 1) \<and>
          max_retries b2 = max_retries b \<and>
          llm_requests b2 = llm_requests b @
            [SystemMessage (TOOLS_SYSTEM_PROMPT (CURRENT_YEAR env)) # ms,
             [SystemMessage (TOOLS_SYSTEM_PROMPT (CURRENT_YEAR env)),
              HumanMessage (fallback_prompt (content (hd (ms @ [AIMessage c cs]))) failed)]] \<and>
          tool_invocations b2 = tool_invocations b1"
proof -
  let ?req = "SystemMessage (TOOLS_SYSTEM_PROMPT (CURRENT_YEAR env)) # ms"
  let ?b' = "b\<lparr>llm_requests := llm_requests b @ [?req]\<rparr>"
  let ?ms1 = "ms @ [AIMessage c cs]"
  let ?fb = "[SystemMessage (TOOLS_SYSTEM_PROMPT (CURRENT_YEAR env)),
         HumanMessage (fallback_prompt (content (hd ?ms1)) failed)]"
  have ct: "call_tools_llm env b ms = (Inr [AIMessage c cs], ?b')"
    using p1 by (simp add: call_tools_llm_def tools_llm_invoke_def Let_def)
  have ea: "exists_action ?ms1 = Inr route_more_tools"
    using cs by (simp add: exists_action_after_model)
  note ag = run_tool_calls_agent[OF r]
  define a2 where "a2 = (if failed \<noteq> [] then b1\<lparr>error_count := error_count b1 + 1\<rparr> else b1)"
  have o: "error_count a2 = error_count b + (if failed = [] then 0 else 1)"
          "max_retries a2 = max_retries b"
          "llm_requests a2 = llm_requests b @ [?req]"
          "tool_invocations a2 = tool_invocations b1"
    using ag by (simp_all add: a2_def)
  let ?b2 = "a2\<lparr>llm_requests := llm_requests a2 @ [?fb]\<rparr>"
  have g: "generate_fallback_plan env a2 (content (hd ?ms1)) failed = (Inl (ProviderError e), ?b2)"
    using p2 o(3) by (simp add: generate_fallback_plan_def tools_llm_invoke_def Let_def)
  have "invoke_tools env ?b' ?ms1 = (Inl (ProviderError e), ?b2)"
    using invoke_tools_pass[of ?ms1 c cs env ?b' results failed b1, OF _ _ r] thr o(1,2) g
    by (simp add: Let_def a2_def[symmetric])
  then have "run_graph (Suc n) env b ms = (Raised (ProviderError e) ?ms1, ?b2)"
    by (simp add: ct ea Let_def)
  moreover have "error_count ?b2 = error_count b + (if failed = [] then 0 else 1) \<and>
          max_retries ?b2 = max_retries b \<and>
          llm_requests ?b2 = llm_requests b @ [?req, ?fb] \<and>
          tool_invocations ?b2 = tool_invocations b1"
    using o by simp
  ultimately show ?thesis by blast
qed

text \<open>
  Claim C6. When the provider fails on the request of \<open>call_tools_llm\<close>, the node raises
  the provider's error with its text unchanged, and so does the run of the graph. This
  holds at every turn of the loop: if a run has reached a turn with messages \<open>ms\<close> and
  agent \<open>b\<close> and the provider fails on the model call of that turn, then the run ends by
  raising that error, with the messages still \<open>ms\<close> (the failure is not turned into a
  message), the failure counter still that of \<open>b\<close>, and exactly one more request sent (no
  retry). If instead the provider fails on the fallback request of that turn, the run ends
  by raising that error too; the counter then holds only what the tool failures of the
  pass added, and nothing is sent after the failed request. Conversely, whenever a run ends
  in an exception, that exception is the provider's failure on the last request sent.
\<close>

theorem provider_failure_propagates:
  "(provider env (length (llm_requests a))
        (SystemMessage (TOOLS_SYSTEM_PROMPT (CURRENT_YEAR env)) # messages) = Inl e \<longrightarrow>
      call_tools_llm env a messages =
        (Inl (ProviderError e),
         a\<lparr>llm_requests := llm_requests a @
              [SystemMessage (TOOLS_SYSTEM_PROMPT (CURRENT_YEAR env)) # messages]\<rparr>) \<and>
      run_graph (Suc n) env a messages =
        (Raised (ProviderError e) messages,
         a\<lparr>llm_requests := llm_requests a @
              [SystemMessage (TOOLS_SYSTEM_PROMPT (CURRENT_YEAR env)) # messages]\<rparr>)) \<and>
   (run_graph j env a messages = (OutOfFuel ms, b) \<and>
    provider env (length (llm_requests b))
        (SystemMessage (TOOLS_SYSTEM_PROMPT (CURRENT_YEAR env)) # ms) = Inl e \<longrightarrow>
      run_graph (j + Suc m) env a messages =
        (Raised (ProviderError e) ms,
         b\<lparr>llm_requests := llm_requests b @
              [SystemMessage (TOOLS_SYSTEM_PROMPT (CURRENT_YEAR env)) # ms]\<rparr>)) \<and>
   (run_graph j env a messages = (OutOfFuel ms, b) \<and>
    provider env (length (llm_requests b))
        (SystemMessage (TOOLS_SYSTEM_PROMPT (CURRENT_YEAR env)) # ms) = Inr (c, cs) \<and>
    cs \<noteq> [] \<and>
    run_tool_calls env
        (b\<lparr>llm_requests := llm_requests b @
             [SystemMessage (TOOLS_SYSTEM_PROMPT (CURRENT_YEAR env)) # ms]\<rparr>) cs =
        (results, failed, b1) \<and>
    max_retries b \<le> error_count b + (if failed = [] then 0 else 1) \<and>
    provider env (length (llm_requests b) + 1)
        [SystemMessage (TOOLS_SYSTEM_PROMPT (CURRENT_YEAR env)),
         HumanMessage (fallback_prompt (content (hd (ms @ [AIMessage c cs]))) failed)] = Inl e \<longrightarrow>
      (\<exists>b2. run_graph (j + Suc m) env a messages =
               (Raised (ProviderError e) (ms @ [AIMessage c cs]), b2) \<and>
            error_count b2 = error_count b + (if failed = [] then 0 else 1) \<and>
            max_retries b2 = max_retries b \<and>
            llm_requests b2 = llm_requests b @
              [SystemMessage (TOOLS_SYSTEM_PROMPT (CURRENT_YEAR env)) # ms,
               [SystemMessage (TOOLS_SYSTEM_PROMPT (CURRENT_YEAR env)),
                HumanMessage (fallback_prompt (content (hd (ms @ [AIMessage c cs]))) failed)]] \<and>
            tool_invocations b2 = tool_invocations b1)) \<and>
   (run_graph k env a messages = (Raised x ms', a') \<longrightarrow>
      (\<exists>e'. x = ProviderError e' \<and> llm_requests a' \<noteq> [] \<and>
            provider env (length (llm_requests a') - 1) (last (llm_requests a')) = Inl e'))"
proof (intro conjI impI)
  assume p: "provider env (length (llm_requests a))
        (SystemMessage (TOOLS_SYSTEM_PROMPT (CURRENT_YEAR env)) # messages) = Inl e"
  from model_call_failure_step(1)[OF p]
  show "call_tools_llm env a messages =
        (Inl (ProviderError e),
         a\<lparr>llm_requests := llm_requests a @
              [SystemMessage (TOOLS_SYSTEM_PROMPT (CURRENT_YEAR env)) # messages]\<rparr>)" .
  from model_call_failure_step(2)[OF p]
  show "run_graph (Suc n) env a messages =
        (Raised (ProviderError e) messages,
         a\<lparr>llm_requests := llm_requests a @
              [SystemMessage (TOOLS_SYSTEM_PROMPT (CURRENT_YEAR env)) # messages]\<rparr>)" .
next
  assume h: "run_graph j env a messages = (OutOfFuel ms, b) \<and>
    provider env (length (llm_requests b))
        (SystemMessage (TOOLS_SYSTEM_PROMPT (CURRENT_YEAR env)) # ms) = Inl e"
  then have "run_graph (j + Suc m) env a messages = run_graph (Suc m) env b ms"
    using run_graph_resume by blast
  with h model_call_failure_step(2)[of env b ms e m]
  show "run_graph (j + Suc m) env a messages =
        (Raised (ProviderError e) ms,
         b\<lparr>llm_requests := llm_requests b @
              [SystemMessage (TOOLS_SYSTEM_PROMPT (CURRENT_YEAR env)) # ms]\<rparr>)"
    by simp
next
  assume h: "run_graph j env a messages = (OutOfFuel ms, b) \<and>
    provider env (length (llm_requests b))
        (SystemMessage (TOOLS_SYSTEM_PROMPT (CURRENT_YEAR env)) # ms) = Inr (c, cs) \<and>
    cs \<noteq> [] \<and>
    run_tool_calls env
        (b\<lparr>llm_requests := llm_requests b @
             [SystemMessage (TOOLS_SYSTEM_PROMPT (CURRENT_YEAR env)) # ms]\<rparr>) cs =
        (results, failed, b1) \<and>
    max_retries b \<le> error_count b + (if failed = [] then 0 else 1) \<and>
    provider env (length (llm_requests b) + 1)
        [SystemMessage (TOOLS_SYSTEM_PROMPT (CURRENT_YEAR env)),
         HumanMessage (fallback_prompt (content (hd (ms @ [AIMessage c cs]))) failed)] = Inl e"
  then have res: "run_graph (j + Suc m) env a messages = run_graph (Suc m) env b ms"
    using run_graph_resume by blast
  from h fallback_call_failure_step[of env b ms c cs results failed b1 e m]
  show "\<exists>b2. run_graph (j + Suc m) env a messages =
               (Raised (ProviderError e) (ms @ [AIMessage c cs]), b2) \<and>
            error_count b2 = error_count b + (if failed = [] then 0 else 1) \<and>
            max_retries b2 = max_retries b \<and>
            llm_requests b2 = llm_requests b @
              [SystemMessage (TOOLS_SYSTEM_PROMPT (CURRENT_YEAR env)) # ms,
               [SystemMessage (TOOLS_SYSTEM_PROMPT (CURRENT_YEAR env)),
                HumanMessage (fallback_prompt (content (hd (ms @ [AIMessage c cs]))) failed)]] \<and>
            tool_invocations b2 = tool_invocations b1"
    unfolding res by blast
next
  assume "run_graph k env a messages = (Raised x ms', a')"
  from run_graph_inv[OF this]
  show "\<exists>e'. x = ProviderError e' \<and> llm_requests a' \<noteq> [] \<and>
            provider env (length (llm_requests a') - 1) (last (llm_requests a')) = Inl e'"
    by blast
qed

text \<open>
  Claim C7. Every request that a run of the graph sends to the provider starts with the
  system prompt, and \<open>call_tools_llm\<close> sends the prompt followed by the stored messages;
  the messages that the run adds to the stored sequence, in every state it can stop in
  (finished, failed, or interrupted after any number of turns), contain no system message.
\<close>

theorem system_prompt_never_persisted:
  assumes "run_graph n env a messages = (out, a')"
  shows "(\<exists>added. messages_of out = messages @ added \<and> (\<forall>m \<in> set added. \<not> is_system m)) \<and>
         (\<exists>sent. llm_requests a' = llm_requests a @ sent \<and>
            (\<forall>req \<in> set sent.
               req \<noteq> [] \<and> hd req = SystemMessage (TOOLS_SYSTEM_PROMPT (CURRENT_YEAR env)))) \<and>
         llm_requests (snd (call_tools_llm env a messages)) =
           llm_requests a @ [SystemMessage (TOOLS_SYSTEM_PROMPT (CURRENT_YEAR env)) # messages] \<and>
         (\<forall>new. fst (call_tools_llm env a messages) = Inr new \<longrightarrow> (\<forall>m \<in> set new. \<not> is_system m))"
proof -
  have "\<forall>new. fst (call_tools_llm env a messages) = Inr new \<longrightarrow> (\<forall>m \<in> set new. \<not> is_system m)"
    using call_tools_llm_cases[of env a messages] by auto
  with run_graph_inv[OF assms] call_tools_llm_snd[of env a messages]
  show ?thesis by simp
qed

theorem system_prompt_never_persisted_witness:
  "filter is_system (messages_of (fst (run_graph 7 trip_env Agent_init
      [HumanMessage ''Plan Sydney to Melbourne'']))) = [] \<and>
   filter (\<lambda>req. hd req \<noteq> SystemMessage (TOOLS_SYSTEM_PROMPT 2025))
     (llm_requests (snd (run_graph 7 trip_env Agent_init
        [HumanMessage ''Plan Sydney to Melbourne'']))) = []"
proof -
  let ?r = "run_graph 7 trip_env Agent_init [HumanMessage ''Plan Sydney to Melbourne'']"
  have h: "?r = (fst ?r, snd ?r)" by simp
  have y: "CURRENT_YEAR trip_env = 2025" by (simp add: trip_env_def)
  from system_prompt_never_persisted[OF h]
  obtain added sent where
    a: "messages_of (fst ?r) = [HumanMessage ''Plan Sydney to Melbourne''] @ added"
       "\<forall>m \<in> set added. \<not> is_system m"
    and s: "llm_requests (snd ?r) = llm_requests Agent_init @ sent"
       "\<forall>req \<in> set sent. req \<noteq> [] \<and> hd req = SystemMessage (TOOLS_SYSTEM_PROMPT (CURRENT_YEAR trip_env))"
    by blast
  from a have "filter is_system (messages_of (fst ?r)) = []"
    by (simp add: filter_empty_conv)
  moreover from s have "\<forall>req \<in> set (llm_requests (snd ?r)).
        hd req = SystemMessage (TOOLS_SYSTEM_PROMPT 2025)"
    by (simp add: Agent_init_def y)
  ultimately show ?thesis by (simp add: filter_empty_conv)
qed

section \<open>The date checks of the weather tool\<close>

text \<open>
  Claim C5 as stated fails for a date in the past: with the key set and a date that
  parses to a day before today, the tool returns a map with the key \<open>error\<close>.
\<close>

theorem weather_check_past_date_counterexample:
  "WEATHER_API_KEY paris_weather_env = Some ''key'' \<and>
   strptime_date paris_weather_env ''2024-01-01'' = Some 738886 \<and>
   738886 - today paris_weather_env < 0 \<and>
   weather_check paris_weather_env \<lparr>location = ''Paris'', date = ''2024-01-01''\<rparr> =
     [(''error'', PyStr ''Cannot check weather for a past date.'')] \<and>
   is_error_map (weather_check paris_weather_env \<lparr>location = ''Paris'', date = ''2024-01-01''\<rparr>)"
  by (simp add: weather_check_def paris_weather_env_def is_error_map_def)

text \<open>
  Claim C5, amended. Without an API key the tool returns the key error map, and with a
  date text that does not parse it returns the format error map, whatever the date. With
  the key set and a date that parses, the tool checks the number of days from today to the
  date: it returns the error map \<open>{error: Cannot check weather for a past date.}\<close> exactly
  when the date is before today, and the informational map with the single key \<open>info\<close>,
  which is not an error map, exactly when the date is more than 14 days ahead. A date from
  today to 14 days ahead goes to the forecast service, and the result is the forecast map
  or an error map. Every case returns a map; nothing is raised.
\<close>

theorem weather_check_date_validation:
  "(WEATHER_API_KEY we = None \<or> WEATHER_API_KEY we = Some [] \<longrightarrow>
      weather_check we params =
        [(''error'', PyStr ''WEATHER_API_KEY environment variable is not set.'')]) \<and>
   (WEATHER_API_KEY we = Some k \<and> k \<noteq> [] \<and> strptime_date we (date params) = None \<longrightarrow>
      weather_check we params =
        [(''error'', PyStr (''Invalid date format: '' @ date params @
                            ''. Must be in YYYY-MM-DD format.''))]) \<and>
   (WEATHER_API_KEY we = Some k \<and> k \<noteq> [] \<and> strptime_date we (date params) = Some d \<longrightarrow>
      ((weather_check we params = [(''error'', PyStr ''Cannot check weather for a past date.'')])
         = (d - today we < 0)) \<and>
      ((weather_check we params =
          [(''info'', PyStr (''Real-time weather forecast is not available for '' @
               date params @ '' in '' @ location params @
               ''. Here is a general weather summary for this time of year based on historical data and LLM knowledge.''))])
         = (d - today we > 14)) \<and>
      ((map_of (weather_check we params) ''info'' \<noteq> None) = (d - today we > 14)) \<and>
      (d - today we < 0 \<longrightarrow> is_error_map (weather_check we params)) \<and>
      (d - today we > 14 \<longrightarrow> \<not> is_error_map (weather_check we params)) \<and>
      (0 \<le> d - today we \<and> d - today we \<le> 14 \<longrightarrow>
         weather_check we params =
           (case requests_get we (location params) (date params) of
              UpstreamRaises e \<Rightarrow> [(''error'', PyStr (''Weather API error: '' @ e))]
            | NoForecastDay \<Rightarrow>
                [(''error'', PyStr (''No weather data available for '' @ location params @
                                    '' on '' @ date params @ ''.''))]
            | ForecastDay condition avg_temp_c max_temp_c min_temp_c \<Rightarrow>
                [(''location'', PyStr (location params)),
                 (''date'', PyStr (date params)),
                 (''condition'', condition),
                 (''avg_temp_c'', avg_temp_c),
                 (''max_temp_c'', max_temp_c),
                 (''min_temp_c'', min_temp_c),
                 (''source'', PyStr ''WeatherAPI.com'')])))"
proof (intro conjI impI)
  assume "WEATHER_API_KEY we = None \<or> WEATHER_API_KEY we = Some []"
  then show "weather_check we params =
        [(''error'', PyStr ''WEATHER_API_KEY environment variable is not set.'')]"
    by (auto simp add: weather_check_def)
next
  assume "WEATHER_API_KEY we = Some k \<and> k \<noteq> [] \<and> strptime_date we (date params) = None"
  then show "weather_check we params =
        [(''error'', PyStr (''Invalid date format: '' @ date params @
                            ''. Must be in YYYY-MM-DD format.''))]"
    by (simp add: weather_check_def)
next
  assume h: "WEATHER_API_KEY we = Some k \<and> k \<noteq> [] \<and> strptime_date we (date params) = Some d"
  then show "(weather_check we params = [(''error'', PyStr ''Cannot check weather for a past date.'')])
         = (d - today we < 0)"
    by (simp add: weather_check_def max_forecast_days_def Let_def split: upstream.split)
  from h show "(weather_check we params =
          [(''info'', PyStr (''Real-time weather forecast is not available for '' @
               date params @ '' in '' @ location params @
               ''. Here is a general weather summary for this time of year based on historical data and LLM knowledge.''))])
         = (d - today we > 14)"
    by (simp add: weather_check_def max_forecast_days_def Let_def split: upstream.split)
  from h show "(map_of (weather_check we params) ''info'' \<noteq> None) = (d - today we > 14)"
    by (simp add: weather_check_def max_forecast_days_def Let_def split: upstream.split)
next
  assume h: "WEATHER_API_KEY we = Some k \<and> k \<noteq> [] \<and> strptime_date we (date params) = Some d"
    and "d - today we < 0"
  then show "is_error_map (weather_check we params)"
    by (simp add: weather_check_def is_error_map_def Let_def)
next
  assume h: "WEATHER_API_KEY we = Some k \<and> k \<noteq> [] \<and> strptime_date we (date params) = Some d"
    and "d - today we > 14"
  then show "\<not> is_error_map (weather_check we params)"
    by (simp add: weather_check_def is_error_map_def max_forecast_days_def Let_def)
next
  assume h: "WEATHER_API_KEY we = Some k \<and> k \<noteq> [] \<and> strptime_date we (date params) = Some d"
    and "0 \<le> d - today we \<and> d - today we \<le> 14"
  then show "weather_check we params =
           (case requests_get we (location params) (date params) of
              UpstreamRaises e \<Rightarrow> [(''error'', PyStr (''Weather API error: '' @ e))]
            | NoForecastDay \<Rightarrow>
                [(''error'', PyStr (''No weather data available for '' @ location params @
                                    '' on '' @ date params @ ''.''))]
            | ForecastDay condition avg_temp_c max_temp_c min_temp_c \<Rightarrow>
                [(''location'', PyStr (location params)),
                 (''date'', PyStr (date params)),
                 (''condition'', condition),
                 (''avg_temp_c'', avg_temp_c),
                 (''max_temp_c'', max_temp_c),
                 (''min_temp_c'', min_temp_c),
                 (''source'', PyStr ''WeatherAPI.com'')])"
    by (simp add: weather_check_def max_forecast_days_def Let_def)
qed

theorem weather_check_date_validation_witness:
  "weather_check nokey_weather_env \<lparr>location = ''Paris'', date = ''2024-05-08''\<rparr> =
     [(''error'', PyStr ''WEATHER_API_KEY environment variable is not set.'')] \<and>
   weather_check paris_weather_env \<lparr>location = ''Paris'', date = ''next week''\<rparr> =
     [(''error'', PyStr ''Invalid date format: next week. Must be in YYYY-MM-DD format.'')] \<and>
   weather_check paris_weather_env \<lparr>location = ''Paris'', date = ''2024-04-23''\<rparr> =
     [(''error'', PyStr ''Cannot check weather for a past date.'')] \<and>
   weather_check paris_weather_env \<lparr>location = ''Paris'', date = ''2024-04-24''\<rparr> =
     [(''location'', PyStr ''Paris''), (''date'', PyStr ''2024-04-24''),
      (''condition'', PyStr ''Sunny''), (''avg_temp_c'', PyOther ''18.2''),
      (''max_temp_c'', PyOther ''23.0''), (''min_temp_c'', PyOther ''12.5''),
      (''source'', PyStr ''WeatherAPI.com'')] \<and>
   weather_check paris_weather_env \<lparr>location = ''Paris'', date = ''2024-05-08''\<rparr> =
     [(''location'', PyStr ''Paris''), (''date'', PyStr ''2024-05-08''),
      (''condition'', PyStr ''Sunny''), (''avg_temp_c'', PyOther ''18.2''),
      (''max_temp_c'', PyOther ''23.0''), (''min_temp_c'', PyOther ''12.5''),
      (''source'', PyStr ''WeatherAPI.com'')] \<and>
   weather_check paris_weather_env \<lparr>location = ''Paris'', date = ''2024-05-09''\<rparr> =
     [(''info'', PyStr ''Real-time weather forecast is not available for 2024-05-09 in Paris. Here is a general weather summary for this time of year based on historical data and LLM knowledge.'')] \<and>
   \<not> is_error_map (weather_check paris_weather_env \<lparr>location = ''Paris'', date = ''2024-05-09''\<rparr>)"
proof -
  have k: "WEATHER_API_KEY paris_weather_env = Some ''key''" "''key'' \<noteq> []"
    and nk: "WEATHER_API_KEY nokey_weather_env = None"
    and t: "today paris_weather_env = 739000"
    and u: "requests_get paris_weather_env loc dt =
              ForecastDay (PyStr ''Sunny'') (PyOther ''18.2'') (PyOther ''23.0'') (PyOther ''12.5'')"
    for loc dt
    by (simp_all add: paris_weather_env_def nokey_weather_env_def)
  have d: "strptime_date paris_weather_env ''next week'' = None"
          "strptime_date paris_weather_env ''2024-04-23'' = Some 738999"
          "strptime_date paris_weather_env ''2024-04-24'' = Some 739000"
          "strptime_date paris_weather_env ''2024-05-08'' = Some 739014"
          "strptime_date paris_weather_env ''2024-05-09'' = Some 739015"
    by (simp_all add: paris_weather_env_def)
  have c1: "weather_check nokey_weather_env \<lparr>location = ''Paris'', date = ''2024-05-08''\<rparr> =
     [(''error'', PyStr ''WEATHER_API_KEY environment variable is not set.'')]"
    using weather_check_date_validation[of nokey_weather_env
        "\<lparr>location = ''Paris'', date = ''2024-05-08''\<rparr>"] nk by blast
  have c2: "weather_check paris_weather_env \<lparr>location = ''Paris'', date = ''next week''\<rparr> =
     [(''error'', PyStr ''Invalid date format: next week. Must be in YYYY-MM-DD format.'')]"
    using weather_check_date_validation[of paris_weather_env
        "\<lparr>location = ''Paris'', date = ''next week''\<rparr>" "''key''"] k d by simp
  have c3: "weather_check paris_weather_env \<lparr>location = ''Paris'', date = ''2024-04-23''\<rparr> =
     [(''error'', PyStr ''Cannot check weather for a past date.'')]"
    using weather_check_date_validation[of paris_weather_env
        "\<lparr>location = ''Paris'', date = ''2024-04-23''\<rparr>" "''key''" 738999] k d t by simp
  have c4: "weather_check paris_weather_env \<lparr>location = ''Paris'', date = ''2024-04-24''\<rparr> =
     [(''location'', PyStr ''Paris''), (''date'', PyStr ''2024-04-24''),
      (''condition'', PyStr ''Sunny''), (''avg_temp_c'', PyOther ''18.2''),
      (''max_temp_c'', PyOther ''23.0''), (''min_temp_c'', PyOther ''12.5''),
      (''source'', PyStr ''WeatherAPI.com'')]"
    using weather_check_date_validation[of paris_weather_env
        "\<lparr>location = ''Paris'', date = ''2024-04-24''\<rparr>" "''key''" 739000] k d t u by simp
  have c5: "weather_check paris_weather_env \<lparr>location = ''Paris'', date = ''2024-05-08''\<rparr> =
     [(''location'', PyStr ''Paris''), (''date'', PyStr ''2024-05-08''),
      (''condition'', PyStr ''Sunny''), (''avg_temp_c'', PyOther ''18.2''),
      (''max_temp_c'', PyOther ''23.0''), (''min_temp_c'', PyOther ''12.5''),
      (''source'', PyStr ''WeatherAPI.com'')]"
    using weather_check_date_validation[of paris_weather_env
        "\<lparr>location = ''Paris'', date = ''2024-05-08''\<rparr>" "''key''" 739014] k d t u by simp
  have c6: "weather_check paris_weather_env \<lparr>location = ''Paris'', date = ''2024-05-09''\<rparr> =
     [(''info'', PyStr ''Real-time weather forecast is not available for 2024-05-09 in Paris. Here is a general weather summary for this time of year based on historical data and LLM knowledge.'')]
     \<and> \<not> is_error_map (weather_check paris_weather_env \<lparr>location = ''Paris'', date = ''2024-05-09''\<rparr>)"
    using weather_check_date_validation[of paris_weather_env
        "\<lparr>location = ''Paris'', date = ''2024-05-09''\<rparr>" "''key''" 739015] k d t by (simp add: is_error_map_def)
  from c1 c2 c3 c4 c5 c6 show ?thesis by blast
qed

section \<open>The error format and the markers of the presentation layer\<close>

lemma sublist_skip_left:
  "x \<notin> set ys \<Longrightarrow> sublist (x # xs) (ys @ zs) = sublist (x # xs) zs"
  by (induction ys) (auto simp add: sublist_Cons_right)

lemma sublist_skip_right:
  assumes "x \<notin> set zs"
  shows "sublist (xs @ [x]) (ys @ zs) = sublist (xs @ [x]) ys"
proof -
  have "sublist (xs @ [x]) (ys @ zs) = sublist (rev (xs @ [x])) (rev (ys @ zs))"
    by (simp only: sublist_rev)
  also have "\<dots> = sublist (x # rev xs) (rev zs @ rev ys)" by simp
  also have "\<dots> = sublist (x # rev xs) (rev ys)"
    using assms by (simp add: sublist_skip_left)
  also have "\<dots> = sublist (rev (xs @ [x])) (rev ys)" by simp
  also have "\<dots> = sublist (xs @ [x]) ys" by (simp only: sublist_rev)
  finally show ?thesis .
qed

lemma bracketed_in_formatted:
  assumes "CHR ''['' \<notin> set pre" and "CHR '']'' \<notin> set suf"
    and "\<not> prefix (CHR ''['' # mid @ '']'') (CHR ''['' # pre @ err @ suf)"
  shows "sublist (CHR ''['' # mid @ '']'') (CHR ''['' # pre @ err @ suf) =
         sublist (CHR ''['' # mid @ '']'') err"
proof -
  have "sublist (CHR ''['' # mid @ '']'') (CHR ''['' # pre @ err @ suf) =
        sublist (CHR ''['' # mid @ '']'') (pre @ err @ suf)"
    using assms(3) by (simp add: sublist_Cons_right)
  also have "\<dots> = sublist (CHR ''['' # mid @ '']'') (err @ suf)"
    using assms(1) by (rule sublist_skip_left)
  also have "\<dots> = sublist ((CHR ''['' # mid) @ '']'') (err @ suf)" by simp
  also have "\<dots> = sublist ((CHR ''['' # mid) @ '']'') err"
    using assms(2) by (rule sublist_skip_right)
  finally show ?thesis by simp
qed

lemma flights_marker_in_formatted:
  assumes "nm = ''flights_finder'' \<or> nm = ''hotels_finder'' \<or> nm = ''weather_check''"
  shows "sublist ''[FLIGHTS ERROR]'' (format_error_message nm err) = sublist ''[FLIGHTS ERROR]'' err"
proof -
  let ?suf = "''. The assistant will continue with available information.''"
  have g: "CHR ''['' \<notin> set pre \<Longrightarrow>
       \<not> prefix (CHR ''['' # ''FLIGHTS ERROR'' @ '']'') (CHR ''['' # pre @ err @ ?suf) \<Longrightarrow>
       sublist ''[FLIGHTS ERROR]'' (CHR ''['' # pre @ err @ ?suf) = sublist ''[FLIGHTS ERROR]'' err" for pre
    using bracketed_in_formatted[of pre ?suf "''FLIGHTS ERROR''" err] by simp
  from assms show ?thesis
  proof (elim disjE)
    assume "nm = ''flights_finder''"
    then show ?thesis
      using g[of "''FLIGHTS_FINDER ERROR] ''"]
      by (simp add: format_error_message_def upper_flights_finder)
  next
    assume "nm = ''hotels_finder''"
    then show ?thesis
      using g[of "''HOTELS_FINDER ERROR] ''"]
      by (simp add: format_error_message_def upper_hotels_finder)
  next
    assume "nm = ''weather_check''"
    then show ?thesis
      using g[of "''WEATHER_CHECK ERROR] ''"]
      by (simp add: format_error_message_def upper_weather_check)
  qed
qed

lemma hotels_marker_in_formatted:
  assumes "nm = ''flights_finder'' \<or> nm = ''hotels_finder'' \<or> nm = ''weather_check''"
  shows "sublist ''[HOTELS ERROR]'' (format_error_message nm err) = sublist ''[HOTELS ERROR]'' err"
proof -
  let ?suf = "''. The assistant will continue with available information.''"
  have g: "CHR ''['' \<notin> set pre \<Longrightarrow>
       \<not> prefix (CHR ''['' # ''HOTELS ERROR'' @ '']'') (CHR ''['' # pre @ err @ ?suf) \<Longrightarrow>
       sublist ''[HOTELS ERROR]'' (CHR ''['' # pre @ err @ ?suf) = sublist ''[HOTELS ERROR]'' err" for pre
    using bracketed_in_formatted[of pre ?suf "''HOTELS ERROR''" err] by simp
  from assms show ?thesis
  proof (elim disjE)
    assume "nm = ''flights_finder''"
    then show ?thesis
      using g[of "''FLIGHTS_FINDER ERROR] ''"]
      by (simp add: format_error_message_def upper_flights_finder)
  next
    assume "nm = ''hotels_finder''"
    then show ?thesis
      using g[of "''HOTELS_FINDER ERROR] ''"]
      by (simp add: format_error_message_def upper_hotels_finder)
  next
    assume "nm = ''weather_check''"
    then show ?thesis
      using g[of "''WEATHER_CHECK ERROR] ''"]
      by (simp add: format_error_message_def upper_weather_check)
  qed
qed

text \<open>
  Claim C10 as stated fails for an error text that itself contains a marker: the formatted
  string contains the error text, so it contains the marker and the check fires.
\<close>

theorem executor_error_never_matches_markers_counterexample:
  "''flights_finder'' \<in> set (map t_name (TOOLS trip_env)) \<and>
   sublist ''[FLIGHTS ERROR]'' (format_error_message ''flights_finder'' ''[FLIGHTS ERROR] no seats'') \<and>
   send_message_warns (format_error_message ''flights_finder'' ''[FLIGHTS ERROR] no seats'')"
proof -
  have "sublist ''[FLIGHTS ERROR]''
          ((''['' @ upper ''flights_finder'' @ '' ERROR] '') @ ''[FLIGHTS ERROR]'' @
           ('' no seats'' @ ''. The assistant will continue with available information.''))"
    by (rule sublist_appendI)
  then have "sublist ''[FLIGHTS ERROR]'' (format_error_message ''flights_finder'' ''[FLIGHTS ERROR] no seats'')"
    by (simp add: format_error_message_def)
  then show ?thesis
    by (simp add: send_message_warns_def error_markers_def TOOLS_def)
qed

text \<open>
  Claim C10, amended. For every registered tool name and every error text, the formatted
  error string contains \<open>[FLIGHTS ERROR]\<close> (respectively \<open>[HOTELS ERROR]\<close>) exactly when the
  error text itself contains it: the prefix built from the tool name and the fixed suffix
  never produce a marker. Hence for an error text that contains neither marker the
  formatted string is not detected by the check of the presentation layer.
\<close>

theorem executor_error_matches_markers_iff_error_text_does:
  assumes "nm \<in> set (map t_name (TOOLS env))"
  shows "(sublist ''[FLIGHTS ERROR]'' (format_error_message nm err) = sublist ''[FLIGHTS ERROR]'' err) \<and>
         (sublist ''[HOTELS ERROR]'' (format_error_message nm err) = sublist ''[HOTELS ERROR]'' err) \<and>
         (send_message_warns (format_error_message nm err) = send_message_warns err) \<and>
         (\<not> sublist ''[FLIGHTS ERROR]'' err \<and> \<not> sublist ''[HOTELS ERROR]'' err \<longrightarrow>
            \<not> send_message_warns (format_error_message nm err))"
proof -
  from assms have nm: "nm = ''flights_finder'' \<or> nm = ''hotels_finder'' \<or> nm = ''weather_check''"
    by (auto simp add: TOOLS_def)
  from flights_marker_in_formatted[OF nm, of err] hotels_marker_in_formatted[OF nm, of err]
  show ?thesis
    by (simp add: send_message_warns_def error_markers_def)
qed

theorem executor_error_matches_markers_iff_error_text_does_witness:
  "''flights_finder'' \<in> set (map t_name (TOOLS trip_env)) \<and>
   \<not> sublist ''[FLIGHTS ERROR]'' ''API key missing'' \<and>
   \<not> sublist ''[HOTELS ERROR]'' ''API key missing'' \<and>
   \<not> send_message_warns (format_error_message ''flights_finder'' ''API key missing'')"
proof -
  have r: "''flights_finder'' \<in> set (map t_name (TOOLS trip_env))"
    by (simp add: TOOLS_def)
  have a: "\<not> sublist ''[FLIGHTS ERROR]'' ''API key missing''"
    by (simp add: sublist_Cons_right)
  have b: "\<not> sublist ''[HOTELS ERROR]'' ''API key missing''"
    by (simp add: sublist_Cons_right)
  from executor_error_matches_markers_iff_error_text_does[OF r, of "''API key missing''"] a b r
  show ?thesis by blast
qed

section \<open>The scenario, turn by turn\<close>

lemma trip_pass:
  "run_tool_calls trip_env a trip_calls =
     ([ToolMessage ''call_1'' ''flights_finder''
         ''[FLIGHTS_FINDER ERROR] API key missing. The assistant will continue with available information.'',
       ToolMessage ''call_2'' ''hotels_finder'' ''[]''],
      [''flights_finder''],
      a\<lparr>tool_invocations := tool_invocations a @ [(''flights_finder'', []), (''hotels_finder'', [])]\<rparr>)"
  by (simp add: run_tool_calls_def trip_calls_def invoke_tool_call_def tools_of_simps
        trip_env_def Let_def format_error_message_def upper_flights_finder)

lemma trip_calls_nonempty: "trip_calls \<noteq> []"
  by (simp add: trip_calls_def)

lemma trip_provider:
  "provider trip_env k req =
     (if k = 3 then Inr (''Fallback plan'', [])
      else if k = 5 then Inr (''Second fallback plan'', [])
      else if k = 6 then Inr (''Closing answer'', [])
      else Inr ([], trip_calls))"
  by (simp add: trip_env_def)

text \<open>A turn of the scenario in which the model asks for the two searches.\<close>

lemma trip_turn_tools:
  assumes "length (llm_requests a) \<notin> {3, 5, 6}"
    and "error_count a + 1 < max_retries a"
  shows "run_graph (Suc n) trip_env a ms =
            run_graph n trip_env
              (a\<lparr>llm_requests := llm_requests a @
                     [SystemMessage (TOOLS_SYSTEM_PROMPT (CURRENT_YEAR trip_env)) # ms],
                  tool_invocations := tool_invocations a @
                     [(''flights_finder'', []), (''hotels_finder'', [])],
                  error_count := error_count a + 1\<rparr>)
              (ms @ [AIMessage [] trip_calls,
                     ToolMessage ''call_1'' ''flights_finder''
                       ''[FLIGHTS_FINDER ERROR] API key missing. The assistant will continue with available information.'',
                     ToolMessage ''call_2'' ''hotels_finder'' ''[]''])"
proof -
  let ?req = "SystemMessage (TOOLS_SYSTEM_PROMPT (CURRENT_YEAR trip_env)) # ms"
  let ?a1 = "a\<lparr>llm_requests := llm_requests a @ [?req]\<rparr>"
  let ?ms1 = "ms @ [AIMessage [] trip_calls]"
  have c: "call_tools_llm trip_env a ms = (Inr [AIMessage [] trip_calls], ?a1)"
    using assms(1) by (simp add: call_tools_llm_def tools_llm_invoke_def trip_provider Let_def)
  have e: "exists_action ?ms1 = Inr route_more_tools"
    by (simp add: exists_action_after_model trip_calls_nonempty)
  have i: "invoke_tools trip_env ?a1 ?ms1 =
      (Inr [ToolMessage ''call_1'' ''flights_finder''
                       ''[FLIGHTS_FINDER ERROR] API key missing. The assistant will continue with available information.'',
            ToolMessage ''call_2'' ''hotels_finder'' ''[]''],
       ?a1\<lparr>tool_invocations := tool_invocations a @ [(''flights_finder'', []), (''hotels_finder'', [])],
             error_count := error_count a + 1\<rparr>)"
    using assms(2) invoke_tools_pass[of ?ms1 "[]" trip_calls trip_env ?a1, OF _ _ trip_pass]
    by (simp add: Let_def)
  show ?thesis
    by (simp add: c e i Let_def)
qed

text \<open>A turn in which the pass reaches the threshold and the fallback request is sent.\<close>

lemma trip_turn_fallback:
  assumes "length (llm_requests a) \<notin> {3, 5, 6}"
    and "max_retries a \<le> error_count a + 1"
    and "provider trip_env (length (llm_requests a) + 1)
           [SystemMessage (TOOLS_SYSTEM_PROMPT (CURRENT_YEAR trip_env)),
            HumanMessage (fallback_prompt (content (hd (ms @ [AIMessage [] trip_calls])))
                            [''flights_finder''])] = Inr (reply, [])"
  shows "run_graph (Suc n) trip_env a ms =
            run_graph n trip_env
              (a\<lparr>tool_invocations := tool_invocations a @
                     [(''flights_finder'', []), (''hotels_finder'', [])],
                  error_count := error_count a + 1,
                  llm_requests := llm_requests a @
                     [SystemMessage (TOOLS_SYSTEM_PROMPT (CURRENT_YEAR trip_env)) # ms,
                      [SystemMessage (TOOLS_SYSTEM_PROMPT (CURRENT_YEAR trip_env)),
                       HumanMessage (fallback_prompt (content (hd (ms @ [AIMessage [] trip_calls])))
                                       [''flights_finder''])]]\<rparr>)
              (ms @ [AIMessage [] trip_calls, AIMessage reply []])"
proof -
  let ?req = "SystemMessage (TOOLS_SYSTEM_PROMPT (CURRENT_YEAR trip_env)) # ms"
  let ?a1 = "a\<lparr>llm_requests := llm_requests a @ [?req]\<rparr>"
  let ?ms1 = "ms @ [AIMessage [] trip_calls]"
  let ?fb = "[SystemMessage (TOOLS_SYSTEM_PROMPT (CURRENT_YEAR trip_env)),
            HumanMessage (fallback_prompt (content (hd ?ms1)) [''flights_finder''])]"
  have c: "call_tools_llm trip_env a ms = (Inr [AIMessage [] trip_calls], ?a1)"
    using assms(1) by (simp add: call_tools_llm_def tools_llm_invoke_def trip_provider Let_def)
  have e: "exists_action ?ms1 = Inr route_more_tools"
    by (simp add: exists_action_after_model trip_calls_nonempty)
  have i: "invoke_tools trip_env ?a1 ?ms1 =
      (Inr [AIMessage reply []],
       a\<lparr>tool_invocations := tool_invocations a @ [(''flights_finder'', []), (''hotels_finder'', [])],
             error_count := error_count a + 1,
             llm_requests := llm_requests a @ [?req, ?fb]\<rparr>)"
    using assms(2,3) invoke_tools_pass[of ?ms1 "[]" trip_calls trip_env ?a1, OF _ _ trip_pass]
    by (simp add: Let_def generate_fallback_plan_def tools_llm_invoke_def)
  show ?thesis
    by (simp add: c e i Let_def)
qed

text \<open>A turn in which the model answers without a tool call.\<close>

lemma trip_turn_done:
  assumes "length (llm_requests a) = 6"
  shows "run_graph (Suc n) trip_env a ms =
           (Done (ms @ [AIMessage ''Closing answer'' []]),
            a\<lparr>llm_requests := llm_requests a @
                 [SystemMessage (TOOLS_SYSTEM_PROMPT (CURRENT_YEAR trip_env)) # ms]\<rparr>)"
proof -
  have c: "call_tools_llm trip_env a ms = (Inr [AIMessage ''Closing answer'' []],
      a\<lparr>llm_requests := llm_requests a @
                 [SystemMessage (TOOLS_SYSTEM_PROMPT (CURRENT_YEAR trip_env)) # ms]\<rparr>)"
    using assms by (simp add: call_tools_llm_def tools_llm_invoke_def trip_provider Let_def)
  show ?thesis
    by (simp add: c exists_action_after_model Let_def)
qed

text \<open>
  Claim C1 against the code. In the scenario the flight search fails on every pass. The
  third failing pass brings the counter to 3 and \<open>invoke_tools\<close> returns the answer to the
  fallback request. The edge from \<open>invoke_tools\<close> leads back to \<open>call_tools_llm\<close>, so the run
  does not end there: the model is called again, its tool calls are executed again (eight
  tool invocations in all, two of them after the first fallback), a second fallback request
  is sent, and the run ends with a later answer of the model. The answer to the fallback
  request is not the last message of the run.
\<close>

theorem fallback_answer_is_not_final:
  "messages_of (fst (run_graph 10 trip_env Agent_init [HumanMessage ''Plan Sydney to Melbourne''])) =
     [HumanMessage ''Plan Sydney to Melbourne'',
      AIMessage [] trip_calls,
      ToolMessage ''call_1'' ''flights_finder''
         ''[FLIGHTS_FINDER ERROR] API key missing. The assistant will continue with available information.'',
      ToolMessage ''call_2'' ''hotels_finder'' ''[]'',
      AIMessage [] trip_calls,
      ToolMessage ''call_1'' ''flights_finder''
         ''[FLIGHTS_FINDER ERROR] API key missing. The assistant will continue with available information.'',
      ToolMessage ''call_2'' ''hotels_finder'' ''[]'',
      AIMessage [] trip_calls,
      AIMessage ''Fallback plan'' [],
      AIMessage [] trip_calls,
      AIMessage ''Second fallback plan'' [],
      AIMessage ''Closing answer'' []] \<and>
   (\<exists>ms. fst (run_graph 10 trip_env Agent_init [HumanMessage ''Plan Sydney to Melbourne'']) = Done ms) \<and>
   length (llm_requests (snd (run_graph 10 trip_env Agent_init [HumanMessage ''Plan Sydney to Melbourne'']))) = 7 \<and>
   length (tool_invocations (snd (run_graph 10 trip_env Agent_init [HumanMessage ''Plan Sydney to Melbourne'']))) = 8 \<and>
   error_count (snd (run_graph 10 trip_env Agent_init [HumanMessage ''Plan Sydney to Melbourne''])) = 4"
proof -
  let ?H = "HumanMessage ''Plan Sydney to Melbourne''"
  let ?T1 = "ToolMessage ''call_1'' ''flights_finder''
         ''[FLIGHTS_FINDER ERROR] API key missing. The assistant will continue with available information.''"
  let ?T2 = "ToolMessage ''call_2'' ''hotels_finder'' ''[]''"
  let ?A = "AIMessage [] trip_calls"
  let ?F1 = "AIMessage ''Fallback plan'' []"
  let ?F2 = "AIMessage ''Second fallback plan'' []"
  obtain a1 where s1: "run_graph 10 trip_env Agent_init [?H] =
        run_graph 9 trip_env a1 [?H, ?A, ?T1, ?T2]"
    and o1: "error_count a1 = 1" "max_retries a1 = 3" "length (llm_requests a1) = 1"
            "length (tool_invocations a1) = 2"
    using trip_turn_tools[of Agent_init 9 "[?H]"] by (simp add: Agent_init_def)
  obtain a2 where s2: "run_graph 9 trip_env a1 [?H, ?A, ?T1, ?T2] =
            run_graph 8 trip_env a2 [?H, ?A, ?T1, ?T2, ?A, ?T1, ?T2]"
    and o2: "error_count a2 = 2" "max_retries a2 = 3" "length (llm_requests a2) = 2"
            "length (tool_invocations a2) = 4"
    using trip_turn_tools[of a1 8 "[?H, ?A, ?T1, ?T2]"] o1 by simp
  obtain a3 where s3: "run_graph 8 trip_env a2 [?H, ?A, ?T1, ?T2, ?A, ?T1, ?T2] =
            run_graph 7 trip_env a3 [?H, ?A, ?T1, ?T2, ?A, ?T1, ?T2, ?A, ?F1]"
    and o3: "error_count a3 = 3" "max_retries a3 = 3" "length (llm_requests a3) = 4"
            "length (tool_invocations a3) = 6"
    using trip_turn_fallback[of a2 "[?H, ?A, ?T1, ?T2, ?A, ?T1, ?T2]" "''Fallback plan''" 7] o2
    by (simp add: trip_provider)
  obtain a4 where s4: "run_graph 7 trip_env a3 [?H, ?A, ?T1, ?T2, ?A, ?T1, ?T2, ?A, ?F1] =
            run_graph 6 trip_env a4 [?H, ?A, ?T1, ?T2, ?A, ?T1, ?T2, ?A, ?F1, ?A, ?F2]"
    and o4: "error_count a4 = 4" "max_retries a4 = 3" "length (llm_requests a4) = 6"
            "length (tool_invocations a4) = 8"
    using trip_turn_fallback[of a3 "[?H, ?A, ?T1, ?T2, ?A, ?T1, ?T2, ?A, ?F1]"
        "''Second fallback plan''" 6] o3
    by (simp add: trip_provider)
  have s5: "run_graph 6 trip_env a4 [?H, ?A, ?T1, ?T2, ?A, ?T1, ?T2, ?A, ?F1, ?A, ?F2] =
        (Done [?H, ?A, ?T1, ?T2, ?A, ?T1, ?T2, ?A, ?F1, ?A, ?F2, AIMessage ''Closing answer'' []],
         a4\<lparr>llm_requests := llm_requests a4 @
             [SystemMessage (TOOLS_SYSTEM_PROMPT (CURRENT_YEAR trip_env)) #
               [?H, ?A, ?T1, ?T2, ?A, ?T1, ?T2, ?A, ?F1, ?A, ?F2]]\<rparr>)"
    using trip_turn_done[of a4 5 "[?H, ?A, ?T1, ?T2, ?A, ?T1, ?T2, ?A, ?F1, ?A, ?F2]"] o4 by simp
  show ?thesis
    unfolding s1 s2 s3 s4 s5 using o4 by simp
qed

lemma late_pass:
  "run_tool_calls late_fail_env a trip_calls =
     ([ToolMessage ''call_1'' ''flights_finder''
         ''[FLIGHTS_FINDER ERROR] API key missing. The assistant will continue with available information.'',
       ToolMessage ''call_2'' ''hotels_finder'' ''[]''],
      [''flights_finder''],
      a\<lparr>tool_invocations := tool_invocations a @ [(''flights_finder'', []), (''hotels_finder'', [])]\<rparr>)"
  by (simp add: run_tool_calls_def trip_calls_def invoke_tool_call_def tools_of_simps
        late_fail_env_def trip_env_def Let_def format_error_message_def upper_flights_finder)

lemma late_provider:
  "provider late_fail_env k req =
     (if k = 0 then Inr ([], trip_calls) else Inl ''rate limit exceeded'')"
  by (simp add: late_fail_env_def)

lemma late_year: "CURRENT_YEAR late_fail_env = 2025"
  by (simp add: late_fail_env_def trip_env_def)

lemma late_first_turn:
  "run_graph 1 late_fail_env Agent_init [HumanMessage ''Plan Sydney to Melbourne''] =
     (OutOfFuel [HumanMessage ''Plan Sydney to Melbourne'',
                 AIMessage [] trip_calls,
                 ToolMessage ''call_1'' ''flights_finder''
                   ''[FLIGHTS_FINDER ERROR] API key missing. The assistant will continue with available information.'',
                 ToolMessage ''call_2'' ''hotels_finder'' ''[]''],
      \<lparr>error_count = 1, max_retries = 3,
       llm_requests = [[SystemMessage (TOOLS_SYSTEM_PROMPT 2025),
                        HumanMessage ''Plan Sydney to Melbourne'']],
       tool_invocations = [(''flights_finder'', []), (''hotels_finder'', [])]\<rparr>)"
proof -
  let ?H = "HumanMessage ''Plan Sydney to Melbourne''"
  let ?T1 = "ToolMessage ''call_1'' ''flights_finder''
         ''[FLIGHTS_FINDER ERROR] API key missing. The assistant will continue with available information.''"
  let ?T2 = "ToolMessage ''call_2'' ''hotels_finder'' ''[]''"
  let ?A = "AIMessage [] trip_calls"
  let ?a1 = "\<lparr>error_count = 0, max_retries = 3,
       llm_requests = [[SystemMessage (TOOLS_SYSTEM_PROMPT 2025), ?H]],
       tool_invocations = []\<rparr>"
  let ?a2 = "\<lparr>error_count = 1, max_retries = 3,
       llm_requests = [[SystemMessage (TOOLS_SYSTEM_PROMPT 2025), ?H]],
       tool_invocations = [(''flights_finder'', []), (''hotels_finder'', [])]\<rparr>"
  have c: "call_tools_llm late_fail_env Agent_init [?H] = (Inr [?A], ?a1)"
    by (simp add: call_tools_llm_def tools_llm_invoke_def late_provider late_year Let_def
          Agent_init_def)
  have e: "exists_action [?H, ?A] = Inr route_more_tools"
    using trip_calls_nonempty by (simp add: exists_action_def)
  have i: "invoke_tools late_fail_env ?a1 [?H, ?A] = (Inr [?T1, ?T2], ?a2)"
    using invoke_tools_pass[of "[?H, ?A]" "[]" trip_calls late_fail_env ?a1, OF _ _ late_pass]
    by (simp add: Let_def)
  have "run_graph (Suc 0) late_fail_env Agent_init [?H] = (OutOfFuel [?H, ?A, ?T1, ?T2], ?a2)"
    by (simp add: c e i Let_def)
  then show ?thesis by simp
qed

theorem provider_failure_propagates_witness:
  "run_graph 5 down_env Agent_init [HumanMessage ''Plan Sydney to Melbourne''] =
     (Raised (ProviderError ''rate limit exceeded'') [HumanMessage ''Plan Sydney to Melbourne''],
      Agent_init\<lparr>llm_requests :=
         [[SystemMessage (TOOLS_SYSTEM_PROMPT 2025), HumanMessage ''Plan Sydney to Melbourne'']]\<rparr>) \<and>
   run_graph 5 late_fail_env Agent_init [HumanMessage ''Plan Sydney to Melbourne''] =
     (Raised (ProviderError ''rate limit exceeded'')
        [HumanMessage ''Plan Sydney to Melbourne'',
         AIMessage [] trip_calls,
         ToolMessage ''call_1'' ''flights_finder''
           ''[FLIGHTS_FINDER ERROR] API key missing. The assistant will continue with available information.'',
         ToolMessage ''call_2'' ''hotels_finder'' ''[]''],
      \<lparr>error_count = 1, max_retries = 3,
       llm_requests =
         [[SystemMessage (TOOLS_SYSTEM_PROMPT 2025), HumanMessage ''Plan Sydney to Melbourne''],
          [SystemMessage (TOOLS_SYSTEM_PROMPT 2025),
           HumanMessage ''Plan Sydney to Melbourne'',
           AIMessage [] trip_calls,
           ToolMessage ''call_1'' ''flights_finder''
             ''[FLIGHTS_FINDER ERROR] API key missing. The assistant will continue with available information.'',
           ToolMessage ''call_2'' ''hotels_finder'' ''[]'']],
       tool_invocations = [(''flights_finder'', []), (''hotels_finder'', [])]\<rparr>) \<and>
   fst (run_graph 5 late_fail_env near_threshold_agent [HumanMessage ''Plan Sydney to Melbourne'']) =
     Raised (ProviderError ''rate limit exceeded'')
        [HumanMessage ''Plan Sydney to Melbourne'', AIMessage [] trip_calls] \<and>
   error_count (snd (run_graph 5 late_fail_env near_threshold_agent
      [HumanMessage ''Plan Sydney to Melbourne''])) = 3 \<and>
   length (llm_requests (snd (run_graph 5 late_fail_env near_threshold_agent
      [HumanMessage ''Plan Sydney to Melbourne'']))) = 2"
proof -
  let ?H = "HumanMessage ''Plan Sydney to Melbourne''"
  let ?T1 = "ToolMessage ''call_1'' ''flights_finder''
         ''[FLIGHTS_FINDER ERROR] API key missing. The assistant will continue with available information.''"
  let ?T2 = "ToolMessage ''call_2'' ''hotels_finder'' ''[]''"
  let ?A = "AIMessage [] trip_calls"
  let ?P = "SystemMessage (TOOLS_SYSTEM_PROMPT 2025)"
  have five: "(5::nat) = Suc 4" "(5::nat) = 1 + Suc 3" "(5::nat) = 0 + Suc 4" by simp_all
  have y: "CURRENT_YEAR down_env = 2025" by (simp add: down_env_def trip_env_def)
  have p0: "provider down_env (length (llm_requests Agent_init))
        (SystemMessage (TOOLS_SYSTEM_PROMPT (CURRENT_YEAR down_env)) # [?H]) = Inl ''rate limit exceeded''"
    by (simp add: down_env_def)
  from provider_failure_propagates[where env = down_env and a = Agent_init
      and messages = "[?H]" and e = "''rate limit exceeded''" and n = 4] p0
  have w1: "run_graph 5 down_env Agent_init [?H] =
        (Raised (ProviderError ''rate limit exceeded'') [?H],
         Agent_init\<lparr>llm_requests := [[?P, ?H]]\<rparr>)"
    unfolding five(1) by (simp add: y Agent_init_def)
  let ?b = "\<lparr>error_count = 1, max_retries = 3, llm_requests = [[?P, ?H]],
       tool_invocations = [(''flights_finder'', []), (''hotels_finder'', [])]\<rparr>"
  have p1: "provider late_fail_env (length (llm_requests ?b))
        (SystemMessage (TOOLS_SYSTEM_PROMPT (CURRENT_YEAR late_fail_env)) # [?H, ?A, ?T1, ?T2]) =
        Inl ''rate limit exceeded''"
    by (simp add: late_provider)
  from provider_failure_propagates[where env = late_fail_env and a = Agent_init
      and messages = "[?H]" and e = "''rate limit exceeded''" and j = 1
      and ms = "[?H, ?A, ?T1, ?T2]" and b = ?b and m = 3] late_first_turn p1
  have w2: "run_graph 5 late_fail_env Agent_init [?H] =
        (Raised (ProviderError ''rate limit exceeded'') [?H, ?A, ?T1, ?T2],
         ?b\<lparr>llm_requests := llm_requests ?b @ [?P # [?H, ?A, ?T1, ?T2]]\<rparr>)"
    unfolding five(2) by (simp add: late_year)
  let ?n = "near_threshold_agent"
  have q0: "run_graph 0 late_fail_env ?n [?H] = (OutOfFuel [?H], ?n)" by simp
  have q1: "provider late_fail_env (length (llm_requests ?n))
        (SystemMessage (TOOLS_SYSTEM_PROMPT (CURRENT_YEAR late_fail_env)) # [?H]) = Inr ([], trip_calls)"
    by (simp add: late_provider near_threshold_agent_def)
  have q2: "run_tool_calls late_fail_env
        (?n\<lparr>llm_requests := llm_requests ?n @
             [SystemMessage (TOOLS_SYSTEM_PROMPT (CURRENT_YEAR late_fail_env)) # [?H]]\<rparr>) trip_calls =
        ([?T1, ?T2], [''flights_finder''],
         (?n\<lparr>llm_requests := llm_requests ?n @
             [SystemMessage (TOOLS_SYSTEM_PROMPT (CURRENT_YEAR late_fail_env)) # [?H]]\<rparr>)
           \<lparr>tool_invocations := tool_invocations ?n @ [(''flights_finder'', []), (''hotels_finder'', [])]\<rparr>)"
    by (simp add: late_pass)
  have q3: "max_retries ?n \<le> error_count ?n + (if [''flights_finder''] = [] then 0 else 1)"
    by (simp add: near_threshold_agent_def)
  have q4: "provider late_fail_env (length (llm_requests ?n) + 1)
        [SystemMessage (TOOLS_SYSTEM_PROMPT (CURRENT_YEAR late_fail_env)),
         HumanMessage (fallback_prompt (content (hd ([?H] @ [AIMessage [] trip_calls])))
                         [''flights_finder''])] = Inl ''rate limit exceeded''"
    by (simp add: late_provider)
  from provider_failure_propagates[where env = late_fail_env and a = ?n
      and messages = "[?H]" and e = "''rate limit exceeded''" and j = 0
      and ms = "[?H]" and b = ?n and m = 4 and c = "[]" and cs = trip_calls
      and results = "[?T1, ?T2]" and failed = "[''flights_finder'']"]
    q0 q1 q2 q3 q4 trip_calls_nonempty
  obtain b2 where w3: "run_graph (0 + Suc 4) late_fail_env ?n [?H] =
               (Raised (ProviderError ''rate limit exceeded'') ([?H] @ [AIMessage [] trip_calls]), b2)"
    and o3: "error_count b2 = error_count ?n + (if [''flights_finder''] = [] then 0 else 1)"
        "llm_requests b2 = llm_requests ?n @
              [SystemMessage (TOOLS_SYSTEM_PROMPT (CURRENT_YEAR late_fail_env)) # [?H],
               [SystemMessage (TOOLS_SYSTEM_PROMPT (CURRENT_YEAR late_fail_env)),
                HumanMessage (fallback_prompt (content (hd ([?H] @ [AIMessage [] trip_calls])))
                                [''flights_finder''])]]"
    by blast
  have w3': "run_graph 5 late_fail_env ?n [?H] =
       (Raised (ProviderError ''rate limit exceeded'') [?H, ?A], b2)"
    using w3 by simp
  from w1 w2 show ?thesis
    unfolding w3' using o3 by (simp add: near_threshold_agent_def)
qed

end
